theory Spec2Isabelle
  imports Main
begin

section \<open>The GraphQL Inspector action: a model of \<open>run\<close>\<close>

text \<open>
  This theory embeds \<open>packages/action/src/run.ts\<close>. The function \<open>run\<close> there is one
  asynchronous procedure that reads the configuration, resolves the rules, loads
  two revisions of a schema file, builds the schemas, calls the diff engine and
  reports a conclusion. The model is a pure function from an environment (the
  values the platform and the collaborators hand to \<open>run\<close>) to the ordered list
  of effects \<open>run\<close> performs, together with the way it ends: by returning, or by
  an exception that nothing in \<open>run\<close> catches.
\<close>

subsection \<open>JavaScript strings\<close>

text \<open>
  \<open>String.prototype.split\<close> with a one-character separator: every occurrence
  separates, and the empty string gives one empty piece.
\<close>

fun split :: "char \<Rightarrow> string \<Rightarrow> string list" where
  "split c [] = [[]]"
| "split c (x # xs) =
     (if x = c then [] # split c xs
      else (case split c xs of
              [] \<Rightarrow> [[x]]
            | y # ys \<Rightarrow> (x # y) # ys))"

text \<open>
  Array destructuring \<open>let [a, b] = parts\<close>: the first two elements, each
  \<open>undefined\<close> (here \<open>None\<close>) when the array is too short; the others are dropped.
\<close>

fun destructure2 :: "'a list \<Rightarrow> 'a option \<times> 'a option" where
  "destructure2 [] = (None, None)"
| "destructure2 [a] = (Some a, None)"
| "destructure2 (a # b # rest) = (Some a, Some b)"

text \<open>A value inside a template literal: \<open>undefined\<close> prints as that word.\<close>

fun tpl :: "string option \<Rightarrow> string" where
  "tpl None = ''undefined''"
| "tpl (Some s) = s"

text \<open>\<open>String(n)\<close> for a non-negative integer \<open>n\<close>: its decimal digits.\<close>

fun String :: "nat \<Rightarrow> string" where
  "String n =
     (if n < 10 then [char_of (48 + n)]
      else String (n div 10) @ [char_of (48 + n mod 10)])"

declare String.simps [simp del]

text \<open>
  \<open>toLowerCase\<close> on the characters of the model (bytes): the letters \<open>A\<close> to \<open>Z\<close>
  move to \<open>a\<close> to \<open>z\<close>, every other character stays.
\<close>

definition lower_char :: "char \<Rightarrow> char" where
  "lower_char c =
     (let k = (of_char c :: nat) in if 65 \<le> k \<and> k \<le> 90 then char_of (k + 32) else c)"

definition toLowerCase :: "string \<Rightarrow> string" where
  "toLowerCase s = map lower_char s"

text \<open>Truthiness of a string that may be \<open>undefined\<close>: present and not empty.\<close>

fun truthy :: "string option \<Rightarrow> bool" where
  "truthy None = False"
| "truthy (Some s) = (s \<noteq> [])"

text \<open>\<open>a || b\<close> on a string \<open>a\<close>: the empty string gives way to the default.\<close>

definition or_default :: "string \<Rightarrow> string \<Rightarrow> string" where
  "or_default a b = (if a = [] then b else a)"

subsection \<open>Data\<close>

text \<open>
  Modelled from the spec: the enum \<open>CheckConclusion\<close> of \<open>helpers/types.ts\<close> is not
  among the sources. The spec gives it two values, \<open>Success\<close> and \<open>Failure\<close>; the
  test of the action expects the log line \<open>Conclusion: success\<close>, so the values
  print in lower case.
\<close>

datatype CheckConclusion = Success | Failure

fun conclusion_text :: "CheckConclusion \<Rightarrow> string" where
  "conclusion_text Success = ''success''"
| "conclusion_text Failure = ''failure''"

text \<open>
  The pull request as \<open>run\<close> reads it: \<open>state\<close>, \<open>number\<close>, \<open>base?.ref\<close> (absent when
  \<open>base\<close> or its \<open>ref\<close> is) and \<open>labels?\<close>, of which only each \<open>name\<close> is read.
\<close>

record label =
  label_name :: string

record pull_request =
  pr_state :: string
  pr_number :: nat
  pr_base_ref :: "string option"
  pr_labels :: "label list option"

text \<open>The argument of one \<open>loadFile\<close> call; an absent key and \<open>undefined\<close> are \<open>None\<close>.\<close>

record load_args =
  load_ref :: "string option"
  load_path :: "string option"
  load_workspace :: "string option"

text \<open>A \<open>Source\<close> of the graphql library: a body and a name.\<close>

record source =
  source_body :: string
  source_name :: string

record 's schemas =
  schemas_old :: 's
  schemas_new :: 's

record sources =
  sources_old :: source
  sources_new :: source

text \<open>The argument of \<open>diff\<close>; \<open>config\<close> is \<open>undefined\<close> or \<open>{ checkUsage }\<close>.\<close>

record ('r, 's, 'u) diff_args =
  diff_path :: string
  diff_schemas :: "'s schemas"
  diff_sources :: sources
  diff_rules :: "'r list"
  diff_config :: "'u option"

text \<open>The result of \<open>diff\<close>; \<open>changes\<close> may be absent.\<close>

record 'c action =
  action_conclusion :: CheckConclusion
  action_changes :: "'c list option"

subsection \<open>Effects and endings\<close>

text \<open>
  The calls \<open>run\<close> makes on the platform (\<open>core.info\<close>, \<open>core.error\<close>,
  \<open>core.setFailed\<close>, \<open>core.setOutput\<close>) and on its collaborators (\<open>require\<close>,
  \<open>loadFile\<close>, \<open>diff\<close>), in the order in which they are made.
\<close>

datatype ('r, 's, 'u) effect =
    Info string
  | Error string
  | SetFailed string
  | SetOutput string string
  | Require string
  | LoadFile load_args
  | Diff "('r, 's, 'u) diff_args"

datatype side = Old | New

text \<open>The exceptions that leave \<open>run\<close>: it has no \<open>try\<close>, so each one ends it.\<close>

datatype thrown =
    RequireThrew
  | LoadFileRejected
  | TypeErrorUndefinedPath
  | JSONParseThrew side
  | BuildClientSchemaThrew side
  | ProduceSchemaThrew side
  | DiffThrew

datatype outcome = Returned | Threw thrown

text \<open>What loading a module with \<open>require\<close> gives.\<close>

datatype 'u required = RequireFails | Falsy | Truthy 'u

subsection \<open>The environment\<close>

text \<open>
  Everything \<open>run\<close> takes from outside. The strings are the values that
  \<open>process.env\<close> and \<open>core.getInput\<close> return, and \<open>pullRequest\<close> is the value the
  awaited \<open>getAssociatedPullRequest\<close> resolves to: the model describes the runs
  in which these calls return. \<open>useMerge\<close> and \<open>failOnBreaking\<close> are the booleans
  that \<open>castToBoolean\<close> returns, \<open>input_rules\<close> is what \<open>getInputAsArray('rules')\<close>
  returns. \<open>castToBoolean\<close>, \<open>getInputAsArray\<close>, \<open>resolveRule\<close> (\<open>utils.ts\<close>),
  \<open>getCurrentCommitSha\<close>, \<open>getAssociatedPullRequest\<close> (\<open>git.ts\<close>), \<open>fileLoader\<close>
  (\<open>files.ts\<close>), \<open>produceSchema\<close>, \<open>diff\<close> and \<open>createSummary\<close> (\<open>helpers\<close>) are not
  among the sources, and \<open>extname\<close>, \<open>JSON.parse\<close>, \<open>buildClientSchema\<close>,
  \<open>printSchema\<close> and \<open>require\<close> belong to libraries: the environment holds them
  as functions, without fixing what they compute.

  \<open>require\<close>, \<open>JSON.parse\<close>, \<open>buildClientSchema\<close>, \<open>produceSchema\<close> and \<open>diff\<close> can
  throw, and the promise of \<open>loadFile\<close> can be rejected: each returns an option,
  \<open>None\<close> being the failure (\<open>require\<close> has a result type of its own). The loader
  is taken to be asynchronous, as \<open>Promise.all\<close> expects: its call itself does
  not throw. \<open>resolveRule\<close>, \<open>extname\<close>, \<open>printSchema\<close> and \<open>createSummary\<close> are
  taken to return.
\<close>

record ('r, 's, 'j, 'c, 'u) env =
  GITHUB_SHA :: string
  commitSha :: string
  input_name :: string
  GITHUB_WORKSPACE :: "string option"
  useMerge :: bool
  failOnBreaking :: bool
  input_approve_label :: string
  input_rules :: "string list option"
  onUsage :: string
  pullRequest :: "pull_request option"
  schemaPointer :: string
  resolveRule :: "string \<Rightarrow> 'r option"
  require :: "string \<Rightarrow> 'u required"
  loadFile :: "load_args \<Rightarrow> string option"
  extname :: "string \<Rightarrow> string"
  JSON_parse :: "string \<Rightarrow> 'j option"
  buildClientSchema :: "'j \<Rightarrow> 's option"
  printSchema :: "'s \<Rightarrow> string"
  produceSchema :: "source \<Rightarrow> 's option"
  diff :: "('r, 's, 'u) diff_args \<Rightarrow> 'c action option"
  createSummary :: "'c list \<Rightarrow> nat \<Rightarrow> bool \<Rightarrow> string"

subsection \<open>Shorthands for the locals of \<open>run\<close>\<close>

text \<open>Line 25: \<open>core.getInput('name') || 'GraphQL Inspector'\<close>.\<close>

definition jobName :: "('r, 's, 'j, 'c, 'u) env \<Rightarrow> string" where
  "jobName e = or_default (input_name e) ''GraphQL Inspector''"

text \<open>Line 35: \<open>core.getInput('approve-label') || 'approved-breaking-change'\<close>.\<close>

definition approveLabel :: "('r, 's, 'j, 'c, 'u) env \<Rightarrow> string" where
  "approveLabel e = or_default (input_approve_label e) ''approved-breaking-change''"

text \<open>Line 36: \<open>getInputAsArray('rules') || []\<close>.\<close>

definition rulesList :: "('r, 's, 'j, 'c, 'u) env \<Rightarrow> string list" where
  "rulesList e = (case input_rules e of None \<Rightarrow> [] | Some rs \<Rightarrow> rs)"

subsection \<open>Sequencing with early exit\<close>

text \<open>
  A stage of \<open>run\<close> performs effects and then either ends the run (\<open>Inl\<close>: a
  \<open>return\<close> or an exception) or hands its locals to the rest (\<open>Inr\<close>).
\<close>

type_synonym ('r, 's, 'u, 'a) stage = "('r, 's, 'u) effect list \<times> (outcome + 'a)"

definition andThen ::
  "('r, 's, 'u, 'a) stage \<Rightarrow> ('a \<Rightarrow> ('r, 's, 'u, 'b) stage) \<Rightarrow> ('r, 's, 'u, 'b) stage" where
  "andThen m f =
     (case m of
        (t, Inl out) \<Rightarrow> (t, Inl out)
      | (t, Inr x) \<Rightarrow> (case f x of (t', r) \<Rightarrow> (t @ t', r)))"

subsection \<open>Lines 14 to 77: environment, inputs and rules\<close>

text \<open>
  The \<open>map\<close> of lines 62 to 71 reports every reference that \<open>resolveRule\<close> does not
  resolve, in order; \<open>filter(Boolean)\<close> keeps the resolved rules.
\<close>

definition rule_error :: "('r, 's, 'j, 'c, 'u) env \<Rightarrow> string \<Rightarrow> ('r, 's, 'u) effect list" where
  "rule_error e r =
     (case resolveRule e r of
        None \<Rightarrow> [Error (''Rule '' @ r @ '' is invalid. Did you specify the correct path?'')]
      | Some rule \<Rightarrow> [])"

definition rule_errors :: "('r, 's, 'j, 'c, 'u) env \<Rightarrow> ('r, 's, 'u) effect list" where
  "rule_errors e = concat (map (rule_error e) (rulesList e))"

definition rules :: "('r, 's, 'j, 'c, 'u) env \<Rightarrow> 'r list" where
  "rules e = List.map_filter (resolveRule e) (rulesList e)"

text \<open>The message of line 76.\<close>

definition rules_not_recognised :: string where
  "rules_not_recognised = ''Some rules weren'' @ [CHR 0x27] @ ''t recognised''"

definition configure :: "('r, 's, 'j, 'c, 'u) env \<Rightarrow> ('r, 's, 'u, 'r list) stage" where
  \<open>configure e =
     (let t0 = [Info ''GraphQL Inspector started'',
                Info (''Ref: '' @ GITHUB_SHA e),
                Info (''Commit SHA: '' @ commitSha e)]
      in if \<not> truthy (GITHUB_WORKSPACE e) then
           (t0 @ [SetFailed ''Failed to resolve workspace directory. GITHUB_WORKSPACE is missing''],
            Inl Returned)
         else
           let t1 = t0 @ [Info (''Creating a job named "'' @ jobName e @ ''"'')]
           in if schemaPointer e = [] then
                (t1 @ [Error ''No `schema` variable'',
                       SetFailed ''Failed to find `schema` variable''],
                 Inl Returned)
              else
                let t2 = t1 @ rule_errors e
                in if length (rules e) \<noteq> length (rulesList e) then
                     (t2 @ [SetFailed rules_not_recognised],
                      Inl Returned)
                   else (t2, Inr (rules e)))\<close>

subsection \<open>Lines 79 to 89: the usage hook\<close>

definition usage :: "('r, 's, 'j, 'c, 'u) env \<Rightarrow> ('r, 's, 'u, 'u option) stage" where
  "usage e =
     (if onUsage e \<noteq> [] then
        (case require e (onUsage e) of
           RequireFails \<Rightarrow> ([Require (onUsage e)], Inl (Threw RequireThrew))
         | Falsy \<Rightarrow> ([Require (onUsage e)], Inr None)
         | Truthy checkUsage \<Rightarrow> ([Require (onUsage e)], Inr (Some checkUsage)))
      else ([], Inr None))"

subsection \<open>Lines 91 to 104: the pointer and the pull request\<close>

definition pointer_parts :: "string \<Rightarrow> string option \<times> string option" where
  "pointer_parts p = destructure2 (split (CHR '':'') p)"

record targets =
  schemaRef :: "string option"
  schemaPath :: "string option"
  ref :: string
  workspace :: "string option"

definition merge_ref :: "nat \<Rightarrow> string" where
  "merge_ref n = ''refs/pull/'' @ String n @ ''/merge''"

definition resolve_targets ::
  "('r, 's, 'j, 'c, 'u) env \<Rightarrow> ('r, 's, 'u) effect list \<times> targets" where
  "resolve_targets e =
     (let (schemaRef0, schemaPath0) = pointer_parts (schemaPointer e);
          unchanged = \<lparr>schemaRef = schemaRef0, schemaPath = schemaPath0,
                       ref = GITHUB_SHA e, workspace = GITHUB_WORKSPACE e\<rparr>
      in case pullRequest e of
           None \<Rightarrow> ([], unchanged)
         | Some pr \<Rightarrow>
             if useMerge e \<and> pr_state pr = ''open'' then
               let t = [Info (''EXPERIMENTAL - Using Pull Request '' @ merge_ref (pr_number pr))];
                   baseRef = pr_base_ref pr
               in if truthy baseRef then
                    (t @ [Info (''EXPERIMENTAL - Using '' @ tpl baseRef @ '' as base schema ref'')],
                     \<lparr>schemaRef = baseRef, schemaPath = schemaPath0,
                      ref = merge_ref (pr_number pr), workspace = None\<rparr>)
                  else
                    (t,
                     \<lparr>schemaRef = schemaRef0, schemaPath = schemaPath0,
                      ref = merge_ref (pr_number pr), workspace = None\<rparr>)
             else ([], unchanged))"

subsection \<open>Lines 106 to 118: the two loads\<close>

text \<open>
  Both calls are made before either result is awaited; \<open>Promise.all\<close> rejects
  when one of them does.
\<close>

definition old_load :: "targets \<Rightarrow> load_args" where
  "old_load tg = \<lparr>load_ref = schemaRef tg, load_path = schemaPath tg, load_workspace = None\<rparr>"

definition new_load :: "targets \<Rightarrow> load_args" where
  "new_load tg = \<lparr>load_ref = Some (ref tg), load_path = schemaPath tg, load_workspace = workspace tg\<rparr>"

definition load ::
  "('r, 's, 'j, 'c, 'u) env \<Rightarrow> ('r, 's, 'u, targets \<times> string \<times> string) stage" where
  "load e =
     (case resolve_targets e of (t, tg) \<Rightarrow>
        let t' = t @ [LoadFile (old_load tg), LoadFile (new_load tg)]
        in case loadFile e (old_load tg) of
             None \<Rightarrow> (t', Inl (Threw LoadFileRejected))
           | Some oldFile \<Rightarrow>
               (case loadFile e (new_load tg) of
                  None \<Rightarrow> (t', Inl (Threw LoadFileRejected))
                | Some newFile \<Rightarrow> (t' @ [Info ''Got both sources''], Inr (tg, oldFile, newFile))))"

subsection \<open>Lines 120 to 147: the schemas and their sources\<close>

text \<open>
  \<open>schemaPath.toLowerCase()\<close> is a \<open>TypeError\<close> when the pointer had no colon. In
  the JSON branch the old schema is parsed and built before the new one; in the
  other branch both sources exist before \<open>produceSchema\<close> reads the old one.
\<close>

definition build ::
  "('r, 's, 'j, 'c, 'u) env \<Rightarrow> targets \<times> string \<times> string \<Rightarrow>
   ('r, 's, 'u, string \<times> 's schemas \<times> sources) stage" where
  "build e x =
     (case x of (tg, oldFile, newFile) \<Rightarrow>
      (case schemaPath tg of
         None \<Rightarrow> ([], Inl (Threw TypeErrorUndefinedPath))
       | Some path \<Rightarrow>
           (let oldName = tpl (schemaRef tg) @ '':'' @ path
            in if extname e (toLowerCase path) = ''.json'' then
                 (case JSON_parse e oldFile of
                    None \<Rightarrow> ([], Inl (Threw (JSONParseThrew Old)))
                  | Some oldJson \<Rightarrow>
                 (case buildClientSchema e oldJson of
                    None \<Rightarrow> ([], Inl (Threw (BuildClientSchemaThrew Old)))
                  | Some oldSchema \<Rightarrow>
                 (case JSON_parse e newFile of
                    None \<Rightarrow> ([], Inl (Threw (JSONParseThrew New)))
                  | Some newJson \<Rightarrow>
                 (case buildClientSchema e newJson of
                    None \<Rightarrow> ([], Inl (Threw (BuildClientSchemaThrew New)))
                  | Some newSchema \<Rightarrow>
                      ([Info ''Built both schemas''],
                       Inr (path,
                            \<lparr>schemas_old = oldSchema, schemas_new = newSchema\<rparr>,
                            \<lparr>sources_old =
                               \<lparr>source_body = printSchema e oldSchema, source_name = oldName\<rparr>,
                             sources_new =
                               \<lparr>source_body = printSchema e newSchema, source_name = path\<rparr>\<rparr>))))))
               else
                 (let oldSource = \<lparr>source_body = oldFile, source_name = oldName\<rparr>;
                      newSource = \<lparr>source_body = newFile, source_name = path\<rparr>
                  in (case produceSchema e oldSource of
                        None \<Rightarrow> ([], Inl (Threw (ProduceSchemaThrew Old)))
                      | Some oldSchema \<Rightarrow>
                     (case produceSchema e newSource of
                        None \<Rightarrow> ([], Inl (Threw (ProduceSchemaThrew New)))
                      | Some newSchema \<Rightarrow>
                          ([Info ''Built both schemas''],
                           Inr (path,
                                \<lparr>schemas_old = oldSchema, schemas_new = newSchema\<rparr>,
                                \<lparr>sources_old = oldSource, sources_new = newSource\<rparr>))))))))"

subsection \<open>Lines 149 to 157: the diff\<close>

definition diff_input ::
  "'r list \<Rightarrow> 'u option \<Rightarrow> string \<times> 's schemas \<times> sources \<Rightarrow> ('r, 's, 'u) diff_args" where
  "diff_input rs config x =
     (case x of (path, schemas, sources) \<Rightarrow>
        \<lparr>diff_path = path, diff_schemas = schemas, diff_sources = sources,
         diff_rules = rs, diff_config = config\<rparr>)"

definition compare ::
  "('r, 's, 'j, 'c, 'u) env \<Rightarrow> 'r list \<Rightarrow> 'u option \<Rightarrow> string \<times> 's schemas \<times> sources \<Rightarrow>
   ('r, 's, 'u, 'c action) stage" where
  "compare e rs config x =
     (let args = diff_input rs config x;
          t = [Info ''Start comparing schemas'', Diff args]
      in (case diff e args of
            None \<Rightarrow> (t, Inl (Threw DiffThrew))
          | Some action \<Rightarrow> (t, Inr action)))"

subsection \<open>Lines 159 to 187: the conclusion and the report\<close>

text \<open>Line 160: \<open>action.changes || []\<close>.\<close>

definition changes :: "'c action \<Rightarrow> 'c list" where
  "changes a = (case action_changes a of None \<Rightarrow> [] | Some cs \<Rightarrow> cs)"

text \<open>
  Lines 165 to 167: \<open>pullRequest?.labels?.some(label => label.name === approveLabel)\<close>,
  read as a condition (\<open>undefined\<close> counts as false).
\<close>

definition hasApprovedBreakingChangeLabel :: "('r, 's, 'j, 'c, 'u) env \<Rightarrow> bool" where
  "hasApprovedBreakingChangeLabel e =
     (case pullRequest e of
        None \<Rightarrow> False
      | Some pr \<Rightarrow>
          (case pr_labels pr of
             None \<Rightarrow> False
           | Some ls \<Rightarrow> list_ex (\<lambda>l. label_name l = approveLabel e) ls))"

text \<open>Lines 170 to 173: the condition under which the conclusion is forced.\<close>

definition forced :: "('r, 's, 'j, 'c, 'u) env \<Rightarrow> CheckConclusion \<Rightarrow> bool" where
  "forced e conclusion =
     ((failOnBreaking e = False \<or> hasApprovedBreakingChangeLabel e) \<and> conclusion = Failure)"

text \<open>The value of \<open>conclusion\<close> after line 176.\<close>

definition final_conclusion :: "('r, 's, 'j, 'c, 'u) env \<Rightarrow> CheckConclusion \<Rightarrow> CheckConclusion" where
  "final_conclusion e conclusion = (if forced e conclusion then Success else conclusion)"

definition summary :: "('r, 's, 'j, 'c, 'u) env \<Rightarrow> 'c action \<Rightarrow> string" where
  "summary e a = createSummary e (changes a) 100 False"

definition conclude :: "('r, 's, 'j, 'c, 'u) env \<Rightarrow> 'c action \<Rightarrow> ('r, 's, 'u, unit) stage" where
  "conclude e a =
     (let t1 = [SetOutput ''changes'' (String (length (changes a))),
                Info (''Changes: '' @ String (length (changes a)))];
          t2 = (if forced e (action_conclusion a)
                then [Info ''FailOnBreaking disabled. Forcing SUCCESS''] else []);
          conclusion = final_conclusion e (action_conclusion a);
          t3 = [Info (''Conclusion: '' @ conclusion_text conclusion)]
      in if conclusion = Failure then
           (t1 @ t2 @ t3 @ [Error (summary e a), SetFailed ''Something is wrong with your schema''],
            Inl Returned)
         else (t1 @ t2 @ t3 @ [Info (summary e a)], Inl Returned))"

subsection \<open>The whole of \<open>run\<close>\<close>

text \<open>Lines 91 to 147: from the pointer to the two schemas.\<close>

definition built ::
  "('r, 's, 'j, 'c, 'u) env \<Rightarrow> ('r, 's, 'u, string \<times> 's schemas \<times> sources) stage" where
  "built e = andThen (load e) (build e)"

text \<open>Lines 14 to 157: everything up to the result of \<open>diff\<close>.\<close>

definition diffed :: "('r, 's, 'j, 'c, 'u) env \<Rightarrow> ('r, 's, 'u, 'c action) stage" where
  "diffed e =
     andThen (configure e) (\<lambda>rs.
     andThen (usage e) (\<lambda>config.
     andThen (built e) (compare e rs config)))"

text \<open>
  \<open>run\<close>: the effects in order, and how the call ends. The last stage always
  ends the run.
\<close>

definition run :: "('r, 's, 'j, 'c, 'u) env \<Rightarrow> ('r, 's, 'u) effect list \<times> outcome" where
  "run e =
     (case andThen (diffed e) (conclude e) of
        (t, Inl out) \<Rightarrow> (t, out)
      | (t, Inr u) \<Rightarrow> (t, Returned))"

subsection \<open>Reading a trace\<close>

text \<open>
  The values handed to \<open>core.setOutput\<close>, the messages handed to \<open>core.setFailed\<close>,
  the arguments of the \<open>loadFile\<close> calls and those of the \<open>diff\<close> calls, each in
  the order of the trace.
\<close>

fun outputs :: "('r, 's, 'u) effect list \<Rightarrow> (string \<times> string) list" where
  "outputs [] = []"
| "outputs (SetOutput k v # t) = (k, v) # outputs t"
| "outputs (x # t) = outputs t"

fun failures :: "('r, 's, 'u) effect list \<Rightarrow> string list" where
  "failures [] = []"
| "failures (SetFailed m # t) = m # failures t"
| "failures (x # t) = failures t"

fun loads :: "('r, 's, 'u) effect list \<Rightarrow> load_args list" where
  "loads [] = []"
| "loads (LoadFile a # t) = a # loads t"
| "loads (x # t) = loads t"

fun diffs :: "('r, 's, 'u) effect list \<Rightarrow> ('r, 's, 'u) diff_args list" where
  "diffs [] = []"
| "diffs (Diff a # t) = a # diffs t"
| "diffs (x # t) = diffs t"

text \<open>Reading a decimal numeral back, to state what \<open>String\<close> encodes.\<close>

definition decimal :: "string \<Rightarrow> nat" where
  "decimal s = foldl (\<lambda>acc c. 10 * acc + (of_char c - 48)) 0 s"

subsection \<open>The pointer as the specification words it\<close>

text \<open>
  The specification splits the pointer at the first colon: the text before it,
  and everything after it. These two functions follow those words; they are
  compared with \<open>pointer_parts\<close>, which follows the code.
\<close>

definition before_first_colon :: "string \<Rightarrow> string" where
  "before_first_colon p = takeWhile (\<lambda>c. c \<noteq> CHR '':'') p"

definition after_first_colon :: "string \<Rightarrow> string" where
  "after_first_colon p = drop 1 (dropWhile (\<lambda>c. c \<noteq> CHR '':'') p)"

subsection \<open>A concrete environment\<close>

text \<open>
  The setting of the action's test: the pointer \<open>master:schema.graphql\<close>, an open
  pull request number 1 onto \<open>master\<close>, one built-in rule. Rules, schemas and
  changes are represented by strings. The collaborators are small stand-ins:
  the loader answers with a text that depends on the ref, the extension is the
  text from the last dot on (what \<open>extname\<close> gives for a plain file name),
  parsing, building and printing each mark their argument, and the diff engine
  reports two changes, failing when no rule is given.
\<close>

definition example_extname :: "string \<Rightarrow> string" where
  "example_extname p =
     (if CHR ''.'' \<in> set p
      then CHR ''.'' # rev (takeWhile (\<lambda>c. c \<noteq> CHR ''.'') (rev p))
      else [])"

definition example_loadFile :: "load_args \<Rightarrow> string option" where
  "example_loadFile a =
     (if load_workspace a = None \<and> load_ref a = Some ''master''
      then Some ''type Query { oldQuery: Int newQuery: Int! }''
      else Some ''type Query { newQuery: Int! }'')"

definition example_diff :: "(string, string, unit) diff_args \<Rightarrow> string action option" where
  "example_diff a =
     Some \<lparr>action_conclusion = (if diff_rules a = [] then Failure else Success),
           action_changes = Some [''Field oldQuery was removed'', ''Type OldType was removed'']\<rparr>"

definition example_env :: "(string, string, string, string, unit) env" where
  "example_env =
     \<lparr>GITHUB_SHA = ''0a1b2c'',
      commitSha = ''0a1b2c'',
      input_name = [],
      GITHUB_WORKSPACE = Some ''/workspace'',
      useMerge = True,
      failOnBreaking = False,
      input_approve_label = [],
      input_rules = Some [''suppressRemovalOfDeprecatedField''],
      onUsage = [],
      pullRequest = Some \<lparr>pr_state = ''open'', pr_number = 1,
                           pr_base_ref = Some ''master'', pr_labels = None\<rparr>,
      schemaPointer = ''master:schema.graphql'',
      resolveRule = (\<lambda>r. if r = ''suppressRemovalOfDeprecatedField'' then Some r else None),
      require = (\<lambda>p. RequireFails),
      loadFile = example_loadFile,
      extname = example_extname,
      JSON_parse = (\<lambda>text. Some (''json of '' @ text)),
      buildClientSchema = (\<lambda>json. Some (''schema of '' @ json)),
      printSchema = (\<lambda>schema. ''print of '' @ schema),
      produceSchema = (\<lambda>s. Some (''schema of '' @ source_body s)),
      diff = example_diff,
      createSummary = (\<lambda>cs n verbose. ''Found '' @ String (length cs) @ '' changes'')\<rparr>"

subsection \<open>Varying the policy inputs\<close>

text \<open>
  The environment with other values for the three inputs that the conclusion
  policy reads: the \<open>fail-on-breaking\<close> flag, the \<open>approve-label\<close> input and the
  labels of the pull request.
\<close>

definition with_policy ::
  "('r, 's, 'j, 'c, 'u) env \<Rightarrow> bool \<Rightarrow> string \<Rightarrow> label list option \<Rightarrow> ('r, 's, 'j, 'c, 'u) env" where
  "with_policy e b l ls =
     e\<lparr>failOnBreaking := b, input_approve_label := l,
       pullRequest := map_option (\<lambda>pr. pr\<lparr>pr_labels := ls\<rparr>) (pullRequest e)\<rparr>"

section \<open>Properties\<close>

subsection \<open>Stages and traces\<close>

lemma andThen_Inl: "andThen (t, Inl out) f = (t, Inl out)"
  by (simp add: andThen_def)

lemma andThen_Inr: "andThen (t, Inr x) f = (t @ fst (f x), snd (f x))"
  by (simp add: andThen_def split: prod.split)

lemma andThen_stops: "snd m = Inl out \<Longrightarrow> andThen m f = (fst m, Inl out)"
  by (cases m) (simp add: andThen_Inl)

lemma andThen_goes: "snd m = Inr x \<Longrightarrow> andThen m f = (fst m @ fst (f x), snd (f x))"
  by (cases m) (simp add: andThen_Inr)

lemma outputs_append: "outputs (s @ t) = outputs s @ outputs t"
  by (induction s rule: outputs.induct) simp_all

lemma failures_append: "failures (s @ t) = failures s @ failures t"
  by (induction s rule: failures.induct) simp_all

lemma loads_append: "loads (s @ t) = loads s @ loads t"
  by (induction s rule: loads.induct) simp_all

lemma diffs_append: "diffs (s @ t) = diffs s @ diffs t"
  by (induction s rule: diffs.induct) simp_all

lemma decimal_snoc: "decimal (s @ [c]) = 10 * decimal s + (of_char c - 48)"
  by (simp add: decimal_def)

lemma decimal_String: "decimal (String n) = n"
proof (induction n rule: String.induct)
  case (1 n)
  show ?case
  proof (cases "n < 10")
    case True
    then show ?thesis by (subst String.simps) (simp add: decimal_def)
  next
    case False
    have d: "n mod 10 < 10" by simp
    from False 1 have "decimal (String (n div 10)) = n div 10" by simp
    with False d show ?thesis
      by (subst String.simps) (simp add: decimal_snoc)
  qed
qed

lemma run_reaches:
  "snd (diffed e) = Inr a \<Longrightarrow> run e = (fst (diffed e) @ fst (conclude e a), Returned)"
  by (simp add: run_def andThen_goes conclude_def Let_def)

lemma fst_andThen:
  "fst (andThen m f) = fst m @ (case snd m of Inl out \<Rightarrow> [] | Inr x \<Rightarrow> fst (f x))"
  by (cases m) (simp add: andThen_def split: sum.split prod.split)

lemma snd_andThen:
  "snd (andThen m f) = (case snd m of Inl out \<Rightarrow> Inl out | Inr x \<Rightarrow> snd (f x))"
  by (cases m) (simp add: andThen_def split: sum.split prod.split)

lemma quiet_rule_errors:
  "outputs (rule_errors e) = []" "failures (rule_errors e) = []"
  "loads (rule_errors e) = []" "diffs (rule_errors e) = []"
proof -
  have "outputs (concat (map (rule_error e) rs)) = [] \<and> failures (concat (map (rule_error e) rs)) = []
      \<and> loads (concat (map (rule_error e) rs)) = [] \<and> diffs (concat (map (rule_error e) rs)) = []" for rs
    by (induction rs)
       (simp_all add: rule_error_def outputs_append failures_append loads_append diffs_append
          split: option.split)
  then show "outputs (rule_errors e) = []" "failures (rule_errors e) = []"
    "loads (rule_errors e) = []" "diffs (rule_errors e) = []"
    by (simp_all add: rule_errors_def)
qed

lemma quiet_configure:
  "outputs (fst (configure e)) = []" "loads (fst (configure e)) = []"
  "diffs (fst (configure e)) = []"
  by (simp_all add: configure_def Let_def outputs_append loads_append diffs_append
      quiet_rule_errors)

lemma configure_goes:
  "snd (configure e) = Inr rs \<Longrightarrow> failures (fst (configure e)) = []"
  by (simp add: configure_def Let_def failures_append quiet_rule_errors split: if_splits)

lemma fst_usage: "fst (usage e) = (if onUsage e \<noteq> [] then [Require (onUsage e)] else [])"
  by (simp add: usage_def split: required.split)

lemma quiet_resolve_targets:
  "outputs (fst (resolve_targets e)) = []" "failures (fst (resolve_targets e)) = []"
  "loads (fst (resolve_targets e)) = []" "diffs (fst (resolve_targets e)) = []"
  by (simp_all add: resolve_targets_def Let_def split: prod.split option.split)

lemma fst_load:
  "fst (load e) =
     fst (resolve_targets e) @
     [LoadFile (old_load (snd (resolve_targets e))), LoadFile (new_load (snd (resolve_targets e)))] @
     (case snd (load e) of Inl out \<Rightarrow> [] | Inr x \<Rightarrow> [Info ''Got both sources''])"
  by (cases "resolve_targets e") (simp add: load_def Let_def split: option.split)

lemma quiet_load:
  "outputs (fst (load e)) = []" "failures (fst (load e)) = []" "diffs (fst (load e)) = []"
  by (simp_all add: fst_load outputs_append failures_append diffs_append quiet_resolve_targets
      split: sum.split)

lemma loads_load:
  "loads (fst (load e)) = [old_load (snd (resolve_targets e)), new_load (snd (resolve_targets e))]"
  by (simp add: fst_load loads_append quiet_resolve_targets split: sum.split)

lemma fst_build:
  "fst (build e x) = (case snd (build e x) of Inl out \<Rightarrow> [] | Inr y \<Rightarrow> [Info ''Built both schemas''])"
  by (simp add: build_def Let_def split: prod.split option.split)

lemma fst_compare:
  "fst (compare e rs cfg x) = [Info ''Start comparing schemas'', Diff (diff_input rs cfg x)]"
  by (simp add: compare_def Let_def split: option.split)

lemma quiet_built:
  "outputs (fst (built e)) = []" "failures (fst (built e)) = []" "diffs (fst (built e)) = []"
  by (simp_all add: built_def fst_andThen outputs_append failures_append diffs_append
      quiet_load fst_build split: sum.split)

lemma loads_built:
  "loads (fst (built e)) = [old_load (snd (resolve_targets e)), new_load (snd (resolve_targets e))]"
  by (simp add: built_def fst_andThen loads_append loads_load fst_build split: sum.split)

lemma quiet_compare:
  "outputs (fst (compare e rs cfg x)) = []" "failures (fst (compare e rs cfg x)) = []"
  "loads (fst (compare e rs cfg x)) = []"
  by (simp_all add: fst_compare)

lemma outputs_diffed: "outputs (fst (diffed e)) = []"
  by (simp add: diffed_def fst_andThen outputs_append quiet_configure fst_usage
      quiet_built quiet_compare split: sum.split)

lemma diffed_stages:
  assumes "snd (diffed e) = Inr a"
  obtains cfg x where "snd (configure e) = Inr (rules e)" "snd (usage e) = Inr cfg"
    "snd (built e) = Inr x" "snd (compare e (rules e) cfg x) = Inr a"
    "fst (diffed e) = fst (configure e) @ fst (usage e) @ fst (built e) @ fst (compare e (rules e) cfg x)"
proof -
  from assms obtain rs where c: "snd (configure e) = Inr rs"
    by (auto simp: diffed_def snd_andThen split: sum.splits)
  then have rs: "rs = rules e"
    by (simp add: configure_def Let_def split: if_splits)
  from assms c obtain cfg where u: "snd (usage e) = Inr cfg"
    by (auto simp: diffed_def snd_andThen split: sum.splits)
  from assms c u obtain x where b: "snd (built e) = Inr x"
    by (auto simp: diffed_def snd_andThen split: sum.splits)
  from assms c u b have d: "snd (compare e rs cfg x) = Inr a"
    by (simp add: diffed_def snd_andThen)
  from c u b have "fst (diffed e) = fst (configure e) @ fst (usage e) @ fst (built e) @ fst (compare e rs cfg x)"
    by (simp add: diffed_def fst_andThen)
  with c u b d rs that show thesis by blast
qed

lemma failures_diffed: "snd (diffed e) = Inr a \<Longrightarrow> failures (fst (diffed e)) = []"
  by (erule diffed_stages)
     (simp add: failures_append configure_goes fst_usage quiet_built quiet_compare)

lemma run_stops: "snd (diffed e) = Inl out \<Longrightarrow> run e = (fst (diffed e), out)"
  by (simp add: run_def andThen_stops)

lemma fst_conclude:
  "fst (conclude e a) =
     [SetOutput ''changes'' (String (length (changes a))),
      Info (''Changes: '' @ String (length (changes a)))] @
     (if forced e (action_conclusion a) then [Info ''FailOnBreaking disabled. Forcing SUCCESS''] else []) @
     [Info (''Conclusion: '' @ conclusion_text (final_conclusion e (action_conclusion a)))] @
     (if final_conclusion e (action_conclusion a) = Failure
      then [Error (summary e a), SetFailed ''Something is wrong with your schema'']
      else [Info (summary e a)])"
  by (simp add: conclude_def Let_def)

lemma outputs_conclude:
  "outputs (fst (conclude e a)) = [(''changes'', String (length (changes a)))]"
  by (simp add: fst_conclude)

lemma failures_conclude:
  "failures (fst (conclude e a)) =
     (if final_conclusion e (action_conclusion a) = Failure
      then [''Something is wrong with your schema''] else [])"
  by (simp add: fst_conclude)

lemma hasApprovedBreakingChangeLabel_iff:
  "hasApprovedBreakingChangeLabel e \<longleftrightarrow>
     (\<exists>pr ls. pullRequest e = Some pr \<and> pr_labels pr = Some ls \<and>
        approveLabel e \<in> label_name ` set ls)"
proof (cases "pullRequest e")
  case None
  then show ?thesis by (simp add: hasApprovedBreakingChangeLabel_def)
next
  case (Some pr)
  show ?thesis
  proof (cases "pr_labels pr")
    case None
    with Some show ?thesis by (simp add: hasApprovedBreakingChangeLabel_def)
  next
    case (Some ls)
    have "list_ex (\<lambda>l. label_name l = approveLabel e) ls \<longleftrightarrow> approveLabel e \<in> label_name ` set ls"
      by (force simp: list_ex_iff image_iff)
    with Some \<open>pullRequest e = Some pr\<close> show ?thesis
      by (simp add: hasApprovedBreakingChangeLabel_def)
  qed
qed

subsection \<open>The stages before the conclusion do not read the policy inputs\<close>

lemma rule_error_with_policy: "rule_error (with_policy e b l ls) = rule_error e"
  by (rule ext) (simp add: with_policy_def rule_error_def)

lemma configure_with_policy: "configure (with_policy e b l ls) = configure e"
proof -
  have "rulesList (with_policy e b l ls) = rulesList e" "rules (with_policy e b l ls) = rules e"
    "jobName (with_policy e b l ls) = jobName e"
    by (simp_all add: with_policy_def rulesList_def rules_def jobName_def)
  moreover have "GITHUB_SHA (with_policy e b l ls) = GITHUB_SHA e"
    "commitSha (with_policy e b l ls) = commitSha e"
    "GITHUB_WORKSPACE (with_policy e b l ls) = GITHUB_WORKSPACE e"
    "schemaPointer (with_policy e b l ls) = schemaPointer e"
    by (simp_all add: with_policy_def)
  ultimately show ?thesis
    by (simp add: configure_def Let_def rule_errors_def rule_error_with_policy)
qed

lemma usage_with_policy: "usage (with_policy e b l ls) = usage e"
  by (simp add: with_policy_def usage_def split: required.split)

lemma resolve_targets_with_policy: "resolve_targets (with_policy e b l ls) = resolve_targets e"
  by (cases "pullRequest e")
     (simp_all add: with_policy_def resolve_targets_def Let_def split: prod.split)

lemma load_with_policy: "load (with_policy e b l ls) = load e"
proof -
  have "loadFile (with_policy e b l ls) = loadFile e"
    by (simp add: with_policy_def)
  then show ?thesis
    by (simp add: load_def resolve_targets_with_policy Let_def split: prod.split option.split)
qed

lemma build_with_policy: "build (with_policy e b l ls) = build e"
  by (rule ext) (simp add: with_policy_def build_def Let_def split: prod.split option.split)

lemma compare_with_policy: "compare (with_policy e b l ls) = compare e"
  by (intro ext) (simp add: with_policy_def compare_def Let_def split: prod.split option.split)

lemma diffed_with_policy: "diffed (with_policy e b l ls) = diffed e"
  by (simp add: diffed_def built_def configure_with_policy usage_with_policy load_with_policy
      build_with_policy compare_with_policy)

lemma outputs_run:
  "outputs (fst (run e)) =
     (case snd (diffed e) of
        Inl out \<Rightarrow> []
      | Inr a \<Rightarrow> [(''changes'', String (length (changes a)))])"
  by (simp add: run_stops run_reaches outputs_append outputs_diffed outputs_conclude
      split: sum.split)

subsection \<open>The rules\<close>

lemma length_map_filter_le: "length (List.map_filter f xs) \<le> length xs"
  by (induction xs) (simp_all add: map_filter_simps split: option.split)

lemma map_filter_all_iff:
  "length (List.map_filter f xs) = length xs \<longleftrightarrow> (\<forall>x\<in>set xs. f x \<noteq> None)"
proof (induction xs)
  case Nil
  show ?case by (simp add: map_filter_simps)
next
  case (Cons x xs)
  show ?case
  proof (cases "f x")
    case None
    have "length (List.map_filter f xs) \<le> length xs"
      by (rule length_map_filter_le)
    with None show ?thesis by (simp add: map_filter_simps)
  next
    case (Some y)
    with Cons show ?thesis by (simp add: map_filter_simps)
  qed
qed

lemma map_filter_all_Some:
  "\<forall>x\<in>set xs. f x \<noteq> None \<Longrightarrow> map Some (List.map_filter f xs) = map f xs"
  by (induction xs) (auto simp: map_filter_simps)

lemma configure_passes:
  assumes "truthy (GITHUB_WORKSPACE e)" "schemaPointer e \<noteq> []"
    "\<forall>r\<in>set (rulesList e). resolveRule e r \<noteq> None"
  shows "snd (configure e) = Inr (rules e)"
proof -
  from assms(3) have "length (rules e) = length (rulesList e)"
    by (simp add: rules_def map_filter_all_iff)
  with assms(1,2) show ?thesis
    by (simp add: configure_def Let_def)
qed

lemma configure_rejects:
  assumes "truthy (GITHUB_WORKSPACE e)" "schemaPointer e \<noteq> []"
    "\<exists>r\<in>set (rulesList e). resolveRule e r = None"
  shows "snd (configure e) = Inl Returned"
    "failures (fst (configure e)) = [rules_not_recognised]"
    "\<exists>pre. fst (configure e) = pre @ [SetFailed rules_not_recognised]"
proof -
  from assms(3) have "length (rules e) \<noteq> length (rulesList e)"
    by (simp add: rules_def map_filter_all_iff)
  with assms(1,2) show "snd (configure e) = Inl Returned"
    "failures (fst (configure e)) = [rules_not_recognised]"
    "\<exists>pre. fst (configure e) = pre @ [SetFailed rules_not_recognised]"
    by (simp_all add: configure_def Let_def failures_append quiet_rule_errors)
qed

lemma configure_unresolved:
  assumes "\<exists>r\<in>set (rulesList e). resolveRule e r = None"
  shows "snd (configure e) = Inl Returned" "failures (fst (configure e)) \<noteq> []"
proof -
  from assms have "length (rules e) \<noteq> length (rulesList e)"
    by (simp add: rules_def map_filter_all_iff)
  then show "snd (configure e) = Inl Returned" "failures (fst (configure e)) \<noteq> []"
    by (simp_all add: configure_def Let_def failures_append quiet_rule_errors)
qed

lemma diffed_stops_at_configure:
  "snd (configure e) = Inl out \<Longrightarrow> diffed e = (fst (configure e), Inl out)"
  by (simp add: diffed_def andThen_stops)

lemma run_stops_at_configure:
  "snd (configure e) = Inl out \<Longrightarrow> run e = (fst (configure e), out)"
  by (simp add: run_stops diffed_stops_at_configure)

lemma failures_usage: "failures (fst (usage e)) = []"
  by (simp add: fst_usage)

lemma failures_diffed_any: "failures (fst (diffed e)) = failures (fst (configure e))"
  by (simp add: diffed_def fst_andThen failures_append failures_usage quiet_built quiet_compare
      split: sum.split)

lemma failures_run:
  "failures (fst (run e)) =
     failures (fst (configure e)) @
     (case snd (diffed e) of Inl out \<Rightarrow> [] | Inr a \<Rightarrow> failures (fst (conclude e a)))"
  by (simp add: run_stops run_reaches failures_append failures_diffed_any split: sum.split)

lemma run_after_configure:
  "snd (configure e) = Inr rs \<Longrightarrow> \<exists>rest. fst (run e) = fst (configure e) @ fst (usage e) @ rest"
proof -
  assume c: "snd (configure e) = Inr rs"
  have d: "\<exists>rest. fst (diffed e) = fst (configure e) @ fst (usage e) @ rest"
    using c by (simp add: diffed_def fst_andThen split: sum.split)
  show ?thesis
  proof (cases "snd (diffed e)")
    case (Inl out)
    with d show ?thesis by (simp add: run_stops)
  next
    case (Inr a)
    from d obtain rest where "fst (diffed e) = fst (configure e) @ fst (usage e) @ rest" ..
    with Inr have "fst (run e) = fst (configure e) @ fst (usage e) @ (rest @ fst (conclude e a))"
      by (simp add: run_reaches)
    then show ?thesis ..
  qed
qed

subsection \<open>The loads of a run\<close>

lemma loads_usage: "loads (fst (usage e)) = []"
  by (simp add: fst_usage)

lemma loads_conclude: "loads (fst (conclude e a)) = []"
  by (simp add: fst_conclude)

lemma loads_diffed:
  "snd (configure e) = Inr rs \<Longrightarrow> snd (usage e) = Inr cfg \<Longrightarrow>
   loads (fst (diffed e)) = [old_load (snd (resolve_targets e)), new_load (snd (resolve_targets e))]"
  by (simp add: diffed_def fst_andThen loads_append quiet_configure loads_usage loads_built
      quiet_compare split: sum.split)

lemma loads_run:
  assumes "snd (configure e) = Inr rs" "snd (usage e) = Inr cfg"
  shows "loads (fst (run e)) = [old_load (snd (resolve_targets e)), new_load (snd (resolve_targets e))]"
proof (cases "snd (diffed e)")
  case (Inl out)
  with assms show ?thesis by (simp add: run_stops loads_diffed)
next
  case (Inr a)
  with assms show ?thesis by (simp add: run_reaches loads_append loads_diffed loads_conclude)
qed

lemma resolve_targets_merge:
  assumes "useMerge e" "pullRequest e = Some pr" "pr_state pr = ''open''"
  shows "snd (resolve_targets e) =
     \<lparr>schemaRef = (if truthy (pr_base_ref pr) then pr_base_ref pr
                   else fst (pointer_parts (schemaPointer e))),
      schemaPath = snd (pointer_parts (schemaPointer e)),
      ref = merge_ref (pr_number pr), workspace = None\<rparr>"
  using assms by (simp add: resolve_targets_def Let_def split: prod.split)

lemma resolve_targets_plain:
  assumes "\<not> useMerge e \<or> pullRequest e = None \<or> (\<exists>pr. pullRequest e = Some pr \<and> pr_state pr \<noteq> ''open'')"
  shows "snd (resolve_targets e) =
     \<lparr>schemaRef = fst (pointer_parts (schemaPointer e)),
      schemaPath = snd (pointer_parts (schemaPointer e)),
      ref = GITHUB_SHA e, workspace = GITHUB_WORKSPACE e\<rparr>"
  using assms by (auto simp: resolve_targets_def Let_def split: prod.split option.split)

subsection \<open>The pointer\<close>

lemma split_unfold:
  "split c s =
     takeWhile (\<lambda>x. x \<noteq> c) s #
     (if c \<in> set s then split c (drop 1 (dropWhile (\<lambda>x. x \<noteq> c) s)) else [])"
proof (induction s)
  case Nil
  show ?case by simp
next
  case (Cons x xs)
  show ?case
  proof (cases "x = c")
    case True
    then show ?thesis by simp
  next
    case False
    then show ?thesis by (subst split.simps) (simp add: Cons.IH)
  qed
qed

lemma pointer_parts_eq:
  "pointer_parts p =
     (Some (before_first_colon p),
      if CHR '':'' \<in> set p then Some (before_first_colon (after_first_colon p)) else None)"
proof (cases "CHR '':'' \<in> set p")
  case True
  then have "split (CHR '':'') p =
      before_first_colon p # split (CHR '':'') (after_first_colon p)"
    by (subst split_unfold) (simp add: before_first_colon_def after_first_colon_def)
  also have "split (CHR '':'') (after_first_colon p) =
      before_first_colon (after_first_colon p) #
      (if CHR '':'' \<in> set (after_first_colon p)
       then split (CHR '':'') (after_first_colon (after_first_colon p)) else [])"
    by (subst split_unfold) (simp add: before_first_colon_def after_first_colon_def)
  finally show ?thesis
    using True by (simp add: pointer_parts_def)
next
  case False
  then have "split (CHR '':'') p = [before_first_colon p]"
    by (subst split_unfold) (simp add: before_first_colon_def)
  with False show ?thesis
    by (simp add: pointer_parts_def)
qed

lemma before_first_colon_id: "before_first_colon s = s \<longleftrightarrow> CHR '':'' \<notin> set s"
proof
  assume "before_first_colon s = s"
  then have "takeWhile (\<lambda>c. c \<noteq> CHR '':'') s = s" by (simp add: before_first_colon_def)
  then have "\<forall>x\<in>set s. x \<noteq> CHR '':''" by (simp add: takeWhile_eq_all_conv)
  then show "CHR '':'' \<notin> set s" by blast
next
  assume "CHR '':'' \<notin> set s"
  then show "before_first_colon s = s"
    by (auto simp: before_first_colon_def takeWhile_eq_all_conv)
qed

lemma usage_passes:
  "onUsage e = [] \<or> require e (onUsage e) \<noteq> RequireFails \<Longrightarrow> \<exists>cfg. snd (usage e) = Inr cfg"
  by (auto simp: usage_def split: required.split)

lemma schemaPath_resolve_targets:
  "schemaPath (snd (resolve_targets e)) = snd (pointer_parts (schemaPointer e))"
  by (simp add: resolve_targets_def Let_def split: prod.split option.split)

lemma load_cases:
  "snd (load e) = Inl (Threw LoadFileRejected) \<or>
   (\<exists>oldFile newFile. snd (load e) = Inr (snd (resolve_targets e), oldFile, newFile))"
  by (cases "resolve_targets e") (simp add: load_def Let_def split: option.split)

lemma build_undefined_path:
  "schemaPath tg = None \<Longrightarrow> build e (tg, oldFile, newFile) = ([], Inl (Threw TypeErrorUndefinedPath))"
  by (simp add: build_def)

lemma built_undefined_path:
  assumes "snd (pointer_parts (schemaPointer e)) = None"
  shows "snd (built e) = Inl (Threw LoadFileRejected) \<or> snd (built e) = Inl (Threw TypeErrorUndefinedPath)"
proof -
  from load_cases [of e] show ?thesis
  proof
    assume "snd (load e) = Inl (Threw LoadFileRejected)"
    then show ?thesis by (simp add: built_def snd_andThen)
  next
    assume "\<exists>oldFile newFile. snd (load e) = Inr (snd (resolve_targets e), oldFile, newFile)"
    then obtain oldFile newFile
      where l: "snd (load e) = Inr (snd (resolve_targets e), oldFile, newFile)" by blast
    from assms have "schemaPath (snd (resolve_targets e)) = None"
      by (simp add: schemaPath_resolve_targets)
    with l show ?thesis
      by (simp add: built_def snd_andThen build_undefined_path)
  qed
qed

lemma snd_diffed_built_stops:
  "snd (configure e) = Inr rs \<Longrightarrow> snd (usage e) = Inr cfg \<Longrightarrow> snd (built e) = Inl out \<Longrightarrow>
   snd (diffed e) = Inl out"
  by (simp add: diffed_def snd_andThen)

lemma configure_empty_pointer:
  assumes "truthy (GITHUB_WORKSPACE e)" "schemaPointer e = []"
  shows "snd (configure e) = Inl Returned"
    "failures (fst (configure e)) = [''Failed to find `schema` variable'']"
  using assms by (simp_all add: configure_def Let_def)

subsection \<open>The diff calls of a run\<close>

lemma diffs_usage: "diffs (fst (usage e)) = []"
  by (simp add: fst_usage)

lemma diffs_conclude: "diffs (fst (conclude e a)) = []"
  by (simp add: fst_conclude)

lemma diffs_compare: "diffs (fst (compare e rs cfg x)) = [diff_input rs cfg x]"
  by (simp add: fst_compare)

lemma diffs_diffed:
  "snd (configure e) = Inr rs \<Longrightarrow> snd (usage e) = Inr cfg \<Longrightarrow>
   diffs (fst (diffed e)) =
     (case snd (built e) of Inl out \<Rightarrow> [] | Inr x \<Rightarrow> [diff_input rs cfg x])"
  by (simp add: diffed_def fst_andThen diffs_append quiet_configure diffs_usage quiet_built
      diffs_compare split: sum.split)

lemma diffs_run:
  assumes "snd (configure e) = Inr rs" "snd (usage e) = Inr cfg"
  shows "diffs (fst (run e)) =
     (case snd (built e) of Inl out \<Rightarrow> [] | Inr x \<Rightarrow> [diff_input rs cfg x])"
proof (cases "snd (diffed e)")
  case (Inl out)
  with assms show ?thesis by (simp add: run_stops diffs_diffed)
next
  case (Inr a)
  with assms show ?thesis by (simp add: run_reaches diffs_append diffs_diffed diffs_conclude)
qed

lemma run_stops_at_usage:
  assumes "snd (configure e) = Inr rs" "snd (usage e) = Inl out"
  shows "run e = (fst (configure e) @ fst (usage e), out)"
proof -
  from assms have "diffed e = (fst (configure e) @ fst (usage e), Inl out)"
    by (simp add: diffed_def andThen_goes andThen_stops)
  then show ?thesis by (simp add: run_stops)
qed

subsection \<open>The two ways of building the schemas\<close>

lemma built_after_load:
  "snd (load e) = Inr x \<Longrightarrow> snd (built e) = snd (build e x)"
  by (simp add: built_def snd_andThen)

lemma build_json:
  assumes "schemaPath tg = Some path" "extname e (toLowerCase path) = ''.json''"
    "JSON_parse e oldFile = Some oldJson" "buildClientSchema e oldJson = Some oldSchema"
    "JSON_parse e newFile = Some newJson" "buildClientSchema e newJson = Some newSchema"
  shows "snd (build e (tg, oldFile, newFile)) =
     Inr (path,
          \<lparr>schemas_old = oldSchema, schemas_new = newSchema\<rparr>,
          \<lparr>sources_old = \<lparr>source_body = printSchema e oldSchema,
                           source_name = tpl (schemaRef tg) @ '':'' @ path\<rparr>,
           sources_new = \<lparr>source_body = printSchema e newSchema, source_name = path\<rparr>\<rparr>)"
  using assms by (simp add: build_def)

lemma build_text:
  assumes "schemaPath tg = Some path" "extname e (toLowerCase path) \<noteq> ''.json''"
    "produceSchema e \<lparr>source_body = oldFile, source_name = tpl (schemaRef tg) @ '':'' @ path\<rparr> =
       Some oldSchema"
    "produceSchema e \<lparr>source_body = newFile, source_name = path\<rparr> = Some newSchema"
  shows "snd (build e (tg, oldFile, newFile)) =
     Inr (path,
          \<lparr>schemas_old = oldSchema, schemas_new = newSchema\<rparr>,
          \<lparr>sources_old = \<lparr>source_body = oldFile,
                           source_name = tpl (schemaRef tg) @ '':'' @ path\<rparr>,
           sources_new = \<lparr>source_body = newFile, source_name = path\<rparr>\<rparr>)"
  using assms by (simp add: build_def Let_def)

subsection \<open>The concrete environment, evaluated\<close>

lemma example_diffed:
  "snd (diffed example_env) =
     Inr \<lparr>action_conclusion = Success,
          action_changes = Some [''Field oldQuery was removed'', ''Type OldType was removed'']\<rparr>"
  by code_simp

lemma example_rules_None:
  "snd (diffed (example_env\<lparr>input_rules := None\<rparr>)) =
     Inr \<lparr>action_conclusion = Failure,
          action_changes = Some [''Field oldQuery was removed'', ''Type OldType was removed'']\<rparr>"
  by code_simp

lemma example_strict:
  "snd (diffed (example_env\<lparr>input_rules := None, failOnBreaking := True\<rparr>)) =
     Inr \<lparr>action_conclusion = Failure,
          action_changes = Some [''Field oldQuery was removed'', ''Type OldType was removed'']\<rparr>"
  by code_simp

lemma example_configure: "snd (configure example_env) = Inr [''suppressRemovalOfDeprecatedField'']"
  by code_simp

lemma example_usage: "snd (usage example_env) = Inr None"
  by code_simp

lemma example_closed_configure:
  "snd (configure (example_env\<lparr>pullRequest := Some \<lparr>pr_state = ''closed'', pr_number = 7,
      pr_base_ref = Some ''release'', pr_labels = None\<rparr>\<rparr>)) = Inr [''suppressRemovalOfDeprecatedField'']"
  by code_simp

lemma example_closed_usage:
  "snd (usage (example_env\<lparr>pullRequest := Some \<lparr>pr_state = ''closed'', pr_number = 7,
      pr_base_ref = Some ''release'', pr_labels = None\<rparr>\<rparr>)) = Inr None"
  by code_simp

lemma example_hook_configure:
  "snd (configure (example_env\<lparr>onUsage := ''./usage.js''\<rparr>)) =
     Inr [''suppressRemovalOfDeprecatedField'']"
  "snd (configure (example_env\<lparr>onUsage := ''./usage.js'', require := (\<lambda>p. Falsy)\<rparr>)) =
     Inr [''suppressRemovalOfDeprecatedField'']"
  by code_simp+

lemma example_load:
  "snd (load example_env) =
     Inr (\<lparr>schemaRef = Some ''master'', schemaPath = Some ''schema.graphql'',
           ref = ''refs/pull/1/merge'', workspace = None\<rparr>,
          ''type Query { oldQuery: Int newQuery: Int! }'', ''type Query { newQuery: Int! }'')"
  by code_simp

lemma example_json_stages:
  "snd (configure (example_env\<lparr>schemaPointer := ''master:Schema.JSON''\<rparr>)) =
     Inr [''suppressRemovalOfDeprecatedField'']"
  "snd (usage (example_env\<lparr>schemaPointer := ''master:Schema.JSON''\<rparr>)) = Inr None"
  "snd (load (example_env\<lparr>schemaPointer := ''master:Schema.JSON''\<rparr>)) =
     Inr (\<lparr>schemaRef = Some ''master'', schemaPath = Some ''Schema.JSON'',
           ref = ''refs/pull/1/merge'', workspace = None\<rparr>,
          ''type Query { oldQuery: Int newQuery: Int! }'', ''type Query { newQuery: Int! }'')"
  by code_simp+

section \<open>The claims\<close>

text \<open>
  Claim C1. The override of the conclusion goes one way only. For a run that
  reaches the result of the diff engine: when the raw conclusion is \<open>Failure\<close>,
  the final conclusion is \<open>Success\<close> exactly when \<open>fail-on-breaking\<close> is disabled
  or the pull request carries the approval label; when the raw conclusion is
  \<open>Success\<close>, the final conclusion is \<open>Success\<close>. The final conclusion is the one
  the run acts on: it is \<open>Failure\<close> exactly when the run is marked failed.
\<close>

theorem C1_override_is_one_way:
  assumes "snd (diffed e) = Inr a"
  shows "(action_conclusion a = Failure \<longrightarrow>
            (final_conclusion e (action_conclusion a) = Success \<longleftrightarrow>
               (\<not> failOnBreaking e \<or>
                (\<exists>pr ls. pullRequest e = Some pr \<and> pr_labels pr = Some ls \<and>
                   approveLabel e \<in> label_name ` set ls))))
       \<and> (action_conclusion a = Success \<longrightarrow> final_conclusion e (action_conclusion a) = Success)
       \<and> (final_conclusion e (action_conclusion a) = Failure \<longleftrightarrow> failures (fst (run e)) \<noteq> [])"
proof -
  have "failures (fst (run e)) = failures (fst (conclude e a))"
    using assms by (simp add: run_reaches failures_append failures_diffed)
  then have "final_conclusion e (action_conclusion a) = Failure \<longleftrightarrow> failures (fst (run e)) \<noteq> []"
    by (simp add: failures_conclude)
  moreover have "action_conclusion a = Failure \<longrightarrow>
      (final_conclusion e (action_conclusion a) = Success \<longleftrightarrow>
         (\<not> failOnBreaking e \<or> hasApprovedBreakingChangeLabel e))"
    by (simp add: final_conclusion_def forced_def)
  moreover have "action_conclusion a = Success \<longrightarrow> final_conclusion e (action_conclusion a) = Success"
    by (simp add: final_conclusion_def)
  ultimately show ?thesis
    by (simp only: hasApprovedBreakingChangeLabel_iff) 
qed

theorem C1_override_is_one_way_witness:
  "final_conclusion (example_env\<lparr>input_rules := None\<rparr>) Failure = Success
   \<and> failures (fst (run (example_env\<lparr>input_rules := None\<rparr>))) = []"
proof -
  have "\<not> failOnBreaking (example_env\<lparr>input_rules := None\<rparr>)"
    by (simp add: example_env_def)
  with C1_override_is_one_way [OF example_rules_None] show ?thesis
    by auto
qed

text \<open>
  Claim C2. Rule resolution is all or nothing. When every reference resolves,
  in a run that gets as far as the rules (the workspace is set and the pointer
  is not empty), the stage hands on the resolved rules, one for each reference
  and in the same order, the run goes on with the usage hook, and the
  rules-not-recognised failure is never signalled. When some reference does not
  resolve, the run returns with a failure signalled, and neither a file load
  nor the diff engine is ever called; in a run that gets as far as the rules,
  the rules-not-recognised failure is the last effect and the only failure.
\<close>

theorem C2_rules_all_or_nothing:
  "(truthy (GITHUB_WORKSPACE e) \<and> schemaPointer e \<noteq> []
      \<and> (\<forall>r\<in>set (rulesList e). resolveRule e r \<noteq> None) \<longrightarrow>
      snd (configure e) = Inr (rules e)
      \<and> map Some (rules e) = map (resolveRule e) (rulesList e)
      \<and> (\<exists>rest. fst (run e) = fst (configure e) @ fst (usage e) @ rest)
      \<and> rules_not_recognised \<notin> set (failures (fst (run e))))
   \<and> ((\<exists>r\<in>set (rulesList e). resolveRule e r = None) \<longrightarrow>
      snd (run e) = Returned
      \<and> failures (fst (run e)) \<noteq> []
      \<and> loads (fst (run e)) = []
      \<and> diffs (fst (run e)) = []
      \<and> (truthy (GITHUB_WORKSPACE e) \<and> schemaPointer e \<noteq> [] \<longrightarrow>
           (\<exists>pre. fst (run e) = pre @ [SetFailed rules_not_recognised])
           \<and> failures (fst (run e)) = [rules_not_recognised]))"
proof (intro conjI impI)
  assume h: "truthy (GITHUB_WORKSPACE e) \<and> schemaPointer e \<noteq> []
      \<and> (\<forall>r\<in>set (rulesList e). resolveRule e r \<noteq> None)"
  then show c: "snd (configure e) = Inr (rules e)"
    by (simp add: configure_passes)
  from h show "map Some (rules e) = map (resolveRule e) (rulesList e)"
    by (simp add: rules_def map_filter_all_Some)
  from c show "\<exists>rest. fst (run e) = fst (configure e) @ fst (usage e) @ rest"
    by (rule run_after_configure)
  have "rules_not_recognised \<noteq> ''Something is wrong with your schema''"
    by (simp add: rules_not_recognised_def)
  with c show "rules_not_recognised \<notin> set (failures (fst (run e)))"
    by (simp add: failures_run configure_goes failures_conclude split: sum.split)
next
  assume some: "\<exists>r\<in>set (rulesList e). resolveRule e r = None"
  note r = configure_unresolved [OF some]
  from r(1) have run: "run e = (fst (configure e), Returned)"
    by (rule run_stops_at_configure)
  from run show "snd (run e) = Returned" by simp
  from run r(2) show "failures (fst (run e)) \<noteq> []" by simp
  from run show "loads (fst (run e)) = []" by (simp add: quiet_configure)
  from run show "diffs (fst (run e)) = []" by (simp add: quiet_configure)
  {
    assume g: "truthy (GITHUB_WORKSPACE e) \<and> schemaPointer e \<noteq> []"
    then have g1: "truthy (GITHUB_WORKSPACE e)" and g2: "schemaPointer e \<noteq> []"
      by simp_all
    note q = configure_rejects [OF g1 g2 some]
    from run q(3) show "\<exists>pre. fst (run e) = pre @ [SetFailed rules_not_recognised]" by simp
    from run q(2) show "failures (fst (run e)) = [rules_not_recognised]" by simp
  }
qed

theorem C2_rules_all_or_nothing_witness:
  "snd (configure example_env) = Inr [''suppressRemovalOfDeprecatedField'']
   \<and> failures (fst (run (example_env\<lparr>input_rules :=
         Some [''foo'', ''suppressRemovalOfDeprecatedField'', ''bar'']\<rparr>))) = [rules_not_recognised]
   \<and> diffs (fst (run (example_env\<lparr>input_rules :=
         Some [''foo'', ''suppressRemovalOfDeprecatedField'', ''bar'']\<rparr>))) = []"
proof -
  let ?bad = "example_env\<lparr>input_rules := Some [''foo'', ''suppressRemovalOfDeprecatedField'', ''bar'']\<rparr>"
  have ok: "truthy (GITHUB_WORKSPACE example_env) \<and> schemaPointer example_env \<noteq> []
      \<and> (\<forall>r\<in>set (rulesList example_env). resolveRule example_env r \<noteq> None)"
    by (simp add: example_env_def rulesList_def)
  have bad: "\<exists>r\<in>set (rulesList ?bad). resolveRule ?bad r = None"
    by (simp add: example_env_def rulesList_def)
  have g: "truthy (GITHUB_WORKSPACE ?bad) \<and> schemaPointer ?bad \<noteq> []"
    by (simp add: example_env_def)
  have "rules example_env = [''suppressRemovalOfDeprecatedField'']"
    by code_simp
  with C2_rules_all_or_nothing [of example_env] C2_rules_all_or_nothing [of ?bad] ok bad g
  show ?thesis by simp
qed

text \<open>
  Claim C3. In a run that gets as far as the loads (the rules and the usage hook
  are accepted), exactly two loads are requested, the old one first. With merge
  mode on and an open pull request, the old load reads the base ref of the pull
  request when that is known, the pointer's ref otherwise, and the new load
  reads \<open>refs/pull/N/merge\<close>, with \<open>N\<close> the decimal numeral of the pull request's
  number, and no workspace. With merge mode off, no pull request, or a pull
  request that is not open, the old load reads the pointer's ref and the new
  load reads the configured head ref in the configured workspace.
\<close>

theorem C3_merge_targets:
  assumes "snd (configure e) = Inr rs" and "snd (usage e) = Inr cfg"
  shows "(\<forall>pr. useMerge e \<and> pullRequest e = Some pr \<and> pr_state pr = ''open'' \<longrightarrow>
            loads (fst (run e)) =
              [\<lparr>load_ref = (if truthy (pr_base_ref pr) then pr_base_ref pr
                             else fst (pointer_parts (schemaPointer e))),
                load_path = snd (pointer_parts (schemaPointer e)),
                load_workspace = None\<rparr>,
               \<lparr>load_ref = Some (''refs/pull/'' @ String (pr_number pr) @ ''/merge''),
                load_path = snd (pointer_parts (schemaPointer e)),
                load_workspace = None\<rparr>]
            \<and> decimal (String (pr_number pr)) = pr_number pr)
       \<and> ((\<not> useMerge e \<or> pullRequest e = None \<or>
            (\<exists>pr. pullRequest e = Some pr \<and> pr_state pr \<noteq> ''open'')) \<longrightarrow>
            loads (fst (run e)) =
              [\<lparr>load_ref = fst (pointer_parts (schemaPointer e)),
                load_path = snd (pointer_parts (schemaPointer e)),
                load_workspace = None\<rparr>,
               \<lparr>load_ref = Some (GITHUB_SHA e),
                load_path = snd (pointer_parts (schemaPointer e)),
                load_workspace = GITHUB_WORKSPACE e\<rparr>])"
proof (intro conjI allI impI)
  fix pr
  assume m: "useMerge e \<and> pullRequest e = Some pr \<and> pr_state pr = ''open''"
  then have "snd (resolve_targets e) =
     \<lparr>schemaRef = (if truthy (pr_base_ref pr) then pr_base_ref pr
                   else fst (pointer_parts (schemaPointer e))),
      schemaPath = snd (pointer_parts (schemaPointer e)),
      ref = merge_ref (pr_number pr), workspace = None\<rparr>"
    by (simp add: resolve_targets_merge)
  then show "loads (fst (run e)) =
              [\<lparr>load_ref = (if truthy (pr_base_ref pr) then pr_base_ref pr
                             else fst (pointer_parts (schemaPointer e))),
                load_path = snd (pointer_parts (schemaPointer e)),
                load_workspace = None\<rparr>,
               \<lparr>load_ref = Some (''refs/pull/'' @ String (pr_number pr) @ ''/merge''),
                load_path = snd (pointer_parts (schemaPointer e)),
                load_workspace = None\<rparr>]"
    by (simp add: loads_run [OF assms] old_load_def new_load_def merge_ref_def)
  show "decimal (String (pr_number pr)) = pr_number pr"
    by (rule decimal_String)
next
  assume "\<not> useMerge e \<or> pullRequest e = None \<or>
            (\<exists>pr. pullRequest e = Some pr \<and> pr_state pr \<noteq> ''open'')"
  then have "snd (resolve_targets e) =
     \<lparr>schemaRef = fst (pointer_parts (schemaPointer e)),
      schemaPath = snd (pointer_parts (schemaPointer e)),
      ref = GITHUB_SHA e, workspace = GITHUB_WORKSPACE e\<rparr>"
    by (rule resolve_targets_plain)
  then show "loads (fst (run e)) =
              [\<lparr>load_ref = fst (pointer_parts (schemaPointer e)),
                load_path = snd (pointer_parts (schemaPointer e)),
                load_workspace = None\<rparr>,
               \<lparr>load_ref = Some (GITHUB_SHA e),
                load_path = snd (pointer_parts (schemaPointer e)),
                load_workspace = GITHUB_WORKSPACE e\<rparr>]"
    by (simp add: loads_run [OF assms] old_load_def new_load_def)
qed

theorem C3_merge_targets_witness:
  "loads (fst (run example_env)) =
     [\<lparr>load_ref = Some ''master'', load_path = Some ''schema.graphql'', load_workspace = None\<rparr>,
      \<lparr>load_ref = Some ''refs/pull/1/merge'', load_path = Some ''schema.graphql'',
       load_workspace = None\<rparr>]
   \<and> loads (fst (run (example_env\<lparr>pullRequest := Some \<lparr>pr_state = ''closed'', pr_number = 7,
        pr_base_ref = Some ''release'', pr_labels = None\<rparr>\<rparr>))) =
     [\<lparr>load_ref = Some ''master'', load_path = Some ''schema.graphql'', load_workspace = None\<rparr>,
      \<lparr>load_ref = Some ''0a1b2c'', load_path = Some ''schema.graphql'',
       load_workspace = Some ''/workspace''\<rparr>]"
proof -
  let ?pr = "\<lparr>pr_state = ''open'', pr_number = 1, pr_base_ref = Some ''master'', pr_labels = None\<rparr>"
  let ?closed = "example_env\<lparr>pullRequest := Some \<lparr>pr_state = ''closed'', pr_number = 7,
        pr_base_ref = Some ''release'', pr_labels = None\<rparr>\<rparr>"
  have p: "pointer_parts ''master:schema.graphql'' = (Some ''master'', Some ''schema.graphql'')"
    by code_simp
  have s: "String (Suc 0) = ''1''"
    by code_simp
  have a: "useMerge example_env \<and> pullRequest example_env = Some ?pr \<and> pr_state ?pr = ''open''"
    by (simp add: example_env_def)
  have b: "\<not> useMerge ?closed \<or> pullRequest ?closed = None \<or>
            (\<exists>pr. pullRequest ?closed = Some pr \<and> pr_state pr \<noteq> ''open'')"
    by (simp add: example_env_def)
  have f: "schemaPointer example_env = ''master:schema.graphql''" "GITHUB_SHA example_env = ''0a1b2c''"
    "GITHUB_WORKSPACE example_env = Some ''/workspace''"
    by (simp_all add: example_env_def)
  from C3_merge_targets [OF example_configure example_usage] a
  have 1: "loads (fst (run example_env)) =
     [\<lparr>load_ref = Some ''master'', load_path = Some ''schema.graphql'', load_workspace = None\<rparr>,
      \<lparr>load_ref = Some ''refs/pull/1/merge'', load_path = Some ''schema.graphql'',
       load_workspace = None\<rparr>]"
    by (simp add: f p s)
  from C3_merge_targets [OF example_closed_configure example_closed_usage] b
  have 2: "loads (fst (run ?closed)) =
     [\<lparr>load_ref = Some ''master'', load_path = Some ''schema.graphql'', load_workspace = None\<rparr>,
      \<lparr>load_ref = Some ''0a1b2c'', load_path = Some ''schema.graphql'',
       load_workspace = Some ''/workspace''\<rparr>]"
    by (simp add: f p)
  from 1 2 show ?thesis by simp
qed

text \<open>
  Claim C4, as the code has it. The only check on the pointer is that the whole
  string is not empty. With the workspace set: an empty pointer makes the run
  return with the failure \<open>Failed to find `schema` variable\<close> and without any
  load. A pointer that is not empty but whose path is absent or empty is not
  rejected: once the rules and the usage hook are accepted, both loads are
  requested with that absent or empty path; and when the path is absent, no
  failure is ever signalled and the run ends by an exception, the rejection of
  a load or the \<open>TypeError\<close> of \<open>schemaPath.toLowerCase()\<close>.
\<close>

theorem C4_only_the_empty_pointer_is_rejected:
  assumes "truthy (GITHUB_WORKSPACE e)"
  shows "(schemaPointer e = [] \<longrightarrow>
            snd (run e) = Returned
            \<and> failures (fst (run e)) = [''Failed to find `schema` variable'']
            \<and> loads (fst (run e)) = [])
       \<and> (schemaPointer e \<noteq> []
            \<and> (\<forall>r\<in>set (rulesList e). resolveRule e r \<noteq> None)
            \<and> (onUsage e = [] \<or> require e (onUsage e) \<noteq> RequireFails)
            \<and> (snd (pointer_parts (schemaPointer e)) = None \<or>
               snd (pointer_parts (schemaPointer e)) = Some []) \<longrightarrow>
            map load_path (loads (fst (run e))) =
              [snd (pointer_parts (schemaPointer e)), snd (pointer_parts (schemaPointer e))]
            \<and> (snd (pointer_parts (schemaPointer e)) = None \<longrightarrow>
                 failures (fst (run e)) = []
                 \<and> (snd (run e) = Threw LoadFileRejected \<or>
                    snd (run e) = Threw TypeErrorUndefinedPath)))"
proof (intro conjI impI)
  assume p: "schemaPointer e = []"
  note c = configure_empty_pointer [OF assms p]
  from c(1) have run: "run e = (fst (configure e), Returned)"
    by (rule run_stops_at_configure)
  from run show "snd (run e) = Returned" by simp
  from run c(2) show "failures (fst (run e)) = [''Failed to find `schema` variable'']" by simp
  from run show "loads (fst (run e)) = []" by (simp add: quiet_configure)
next
  assume h: "schemaPointer e \<noteq> []
            \<and> (\<forall>r\<in>set (rulesList e). resolveRule e r \<noteq> None)
            \<and> (onUsage e = [] \<or> require e (onUsage e) \<noteq> RequireFails)
            \<and> (snd (pointer_parts (schemaPointer e)) = None \<or>
               snd (pointer_parts (schemaPointer e)) = Some [])"
  with assms have c: "snd (configure e) = Inr (rules e)"
    by (simp add: configure_passes)
  from h obtain cfg where u: "snd (usage e) = Inr cfg"
    using usage_passes [of e] by blast
  show "map load_path (loads (fst (run e))) =
      [snd (pointer_parts (schemaPointer e)), snd (pointer_parts (schemaPointer e))]"
    by (simp add: loads_run [OF c u] old_load_def new_load_def schemaPath_resolve_targets)
  {
    assume n: "snd (pointer_parts (schemaPointer e)) = None"
    from built_undefined_path [OF n] obtain out
      where b: "snd (built e) = Inl out" and o: "out = Threw LoadFileRejected \<or> out = Threw TypeErrorUndefinedPath"
      by blast
    from c u b have d: "snd (diffed e) = Inl out"
      by (rule snd_diffed_built_stops)
    then have run: "run e = (fst (diffed e), out)"
      by (rule run_stops)
    from run c show "failures (fst (run e)) = []"
      by (simp add: failures_diffed_any configure_goes)
    from run o show "snd (run e) = Threw LoadFileRejected \<or> snd (run e) = Threw TypeErrorUndefinedPath"
      by auto
  }
qed

theorem C4_only_the_empty_pointer_is_rejected_witness:
  "failures (fst (run (example_env\<lparr>schemaPointer := []\<rparr>))) = [''Failed to find `schema` variable'']
   \<and> loads (fst (run (example_env\<lparr>schemaPointer := []\<rparr>))) = []
   \<and> map load_path (loads (fst (run (example_env\<lparr>schemaPointer := ''master:''\<rparr>)))) = [Some [], Some []]"
proof -
  let ?empty = "example_env\<lparr>schemaPointer := []\<rparr>"
  let ?nopath = "example_env\<lparr>schemaPointer := ''master:''\<rparr>"
  have w: "truthy (GITHUB_WORKSPACE ?empty)" "truthy (GITHUB_WORKSPACE ?nopath)"
    by (simp_all add: example_env_def)
  have e: "schemaPointer ?empty = []"
    by simp
  have p: "pointer_parts ''master:'' = (Some ''master'', Some [])"
    by code_simp
  have n: "schemaPointer ?nopath \<noteq> []
            \<and> (\<forall>r\<in>set (rulesList ?nopath). resolveRule ?nopath r \<noteq> None)
            \<and> (onUsage ?nopath = [] \<or> require ?nopath (onUsage ?nopath) \<noteq> RequireFails)
            \<and> (snd (pointer_parts (schemaPointer ?nopath)) = None \<or>
               snd (pointer_parts (schemaPointer ?nopath)) = Some [])"
    by (simp add: example_env_def rulesList_def p)
  from C4_only_the_empty_pointer_is_rejected [OF w(1)] e
    C4_only_the_empty_pointer_is_rejected [OF w(2)] n
  show ?thesis by (simp add: p)
qed

text \<open>
  The pointer \<open>master\<close> has no path. In the concrete environment the run does
  not stop at it: both loads are requested, with no path, no failure is
  signalled, and the run ends by the \<open>TypeError\<close>.
\<close>

theorem C4_load_without_a_path:
  "snd (pointer_parts ''master'') = None
   \<and> loads (fst (run (example_env\<lparr>schemaPointer := ''master''\<rparr>))) =
       [\<lparr>load_ref = Some ''master'', load_path = None, load_workspace = None\<rparr>,
        \<lparr>load_ref = Some ''refs/pull/1/merge'', load_path = None, load_workspace = None\<rparr>]
   \<and> failures (fst (run (example_env\<lparr>schemaPointer := ''master''\<rparr>))) = []
   \<and> snd (run (example_env\<lparr>schemaPointer := ''master''\<rparr>)) = Threw TypeErrorUndefinedPath"
  by code_simp

text \<open>
  Claim C5, as the code has it. With a usage hook configured and the rules
  accepted, \<open>require\<close> is called and nothing is logged about it. When the module
  loads but its value is falsy, the hook counts as not configured: the run goes
  on to the two loads, and the diff engine, called exactly when both schemas
  are built, gets no config. When \<open>require\<close> throws, nothing catches the
  exception: the run ends with it right after the call, and neither a load nor
  the diff engine is ever called.
\<close>

theorem C5_usage_hook:
  assumes "snd (configure e) = Inr rs" and "onUsage e \<noteq> []"
  shows "(require e (onUsage e) = Falsy \<longrightarrow>
            usage e = ([Require (onUsage e)], Inr None)
            \<and> length (loads (fst (run e))) = 2
            \<and> diffs (fst (run e)) =
                (case snd (built e) of Inl out \<Rightarrow> [] | Inr x \<Rightarrow> [diff_input rs None x]))
       \<and> (require e (onUsage e) = RequireFails \<longrightarrow>
            run e = (fst (configure e) @ [Require (onUsage e)], Threw RequireThrew)
            \<and> loads (fst (run e)) = []
            \<and> diffs (fst (run e)) = [])"
proof (intro conjI impI)
  assume f: "require e (onUsage e) = Falsy"
  with assms(2) show u: "usage e = ([Require (onUsage e)], Inr None)"
    by (simp add: usage_def)
  then have u': "snd (usage e) = Inr None" by simp
  show "length (loads (fst (run e))) = 2"
    by (simp add: loads_run [OF assms(1) u'])
  show "diffs (fst (run e)) =
      (case snd (built e) of Inl out \<Rightarrow> [] | Inr x \<Rightarrow> [diff_input rs None x])"
    by (rule diffs_run [OF assms(1) u'])
next
  assume f: "require e (onUsage e) = RequireFails"
  with assms(2) have u: "usage e = ([Require (onUsage e)], Inl (Threw RequireThrew))"
    by (simp add: usage_def)
  then have "snd (usage e) = Inl (Threw RequireThrew)" by simp
  from run_stops_at_usage [OF assms(1) this] u
  show run: "run e = (fst (configure e) @ [Require (onUsage e)], Threw RequireThrew)"
    by simp
  from run show "loads (fst (run e)) = []"
    by (simp add: loads_append quiet_configure)
  from run show "diffs (fst (run e)) = []"
    by (simp add: diffs_append quiet_configure)
qed

theorem C5_usage_hook_witness:
  "length (loads (fst (run (example_env\<lparr>onUsage := ''./usage.js'', require := (\<lambda>p. Falsy)\<rparr>)))) = 2
   \<and> map diff_config (diffs (fst (run (example_env\<lparr>onUsage := ''./usage.js'',
         require := (\<lambda>p. Falsy)\<rparr>)))) = [None]
   \<and> snd (run (example_env\<lparr>onUsage := ''./usage.js''\<rparr>)) = Threw RequireThrew
   \<and> diffs (fst (run (example_env\<lparr>onUsage := ''./usage.js''\<rparr>))) = []"
proof -
  let ?falsy = "example_env\<lparr>onUsage := ''./usage.js'', require := (\<lambda>p. Falsy)\<rparr>"
  let ?fails = "example_env\<lparr>onUsage := ''./usage.js''\<rparr>"
  have o: "onUsage ?falsy \<noteq> []" "onUsage ?fails \<noteq> []"
    by simp_all
  have r: "require ?falsy (onUsage ?falsy) = Falsy" "require ?fails (onUsage ?fails) = RequireFails"
    by (simp_all add: example_env_def)
  have d: "map diff_config (case snd (built ?falsy) of Inl out \<Rightarrow> []
      | Inr x \<Rightarrow> [diff_input [''suppressRemovalOfDeprecatedField''] (None :: unit option) x]) = [None]"
    by code_simp
  from C5_usage_hook [OF example_hook_configure(2) o(1)] r(1)
  have 1: "length (loads (fst (run ?falsy))) = 2"
    and 2: "diffs (fst (run ?falsy)) = (case snd (built ?falsy) of Inl out \<Rightarrow> []
      | Inr x \<Rightarrow> [diff_input [''suppressRemovalOfDeprecatedField''] None x])"
    by blast+
  from C5_usage_hook [OF example_hook_configure(1) o(2)] r(2)
  have 3: "run ?fails = (fst (configure ?fails) @ [Require (onUsage ?fails)], Threw RequireThrew)"
    and 4: "diffs (fst (run ?fails)) = []"
    by blast+
  from 3 have 5: "snd (run ?fails) = Threw RequireThrew"
    by simp
  from 1 2 d 4 5 show ?thesis
    by (simp only: simp_thms)
qed

text \<open>
  In the concrete environment every \<open>require\<close> throws. With a hook path
  configured the run ends by that exception, and neither a load nor the diff
  engine is called.
\<close>

theorem C5_require_throws:
  "require (example_env\<lparr>onUsage := ''./usage.js''\<rparr>) ''./usage.js'' = RequireFails
   \<and> snd (run (example_env\<lparr>onUsage := ''./usage.js''\<rparr>)) = Threw RequireThrew
   \<and> loads (fst (run (example_env\<lparr>onUsage := ''./usage.js''\<rparr>))) = []
   \<and> diffs (fst (run (example_env\<lparr>onUsage := ''./usage.js''\<rparr>))) = []"
  by code_simp

text \<open>
  Claim C6, as the code has it. The resolved ref is the text before the first
  colon. The resolved path is absent when the pointer has no colon; otherwise
  it is the text between the first colon and the second, that is, the remainder
  after the first colon cut at its own first colon. It is the whole remainder
  exactly when the remainder holds no further colon.
\<close>

theorem C6_pointer_parts:
  "pointer_parts p =
     (Some (before_first_colon p),
      if CHR '':'' \<in> set p then Some (before_first_colon (after_first_colon p)) else None)
   \<and> (snd (pointer_parts p) = Some (after_first_colon p) \<longleftrightarrow>
        CHR '':'' \<in> set p \<and> CHR '':'' \<notin> set (after_first_colon p))"
  by (auto simp: pointer_parts_eq before_first_colon_id)

theorem C6_pointer_parts_witness:
  "pointer_parts ''master:dir:schema.graphql'' = (Some ''master'', Some ''dir'')"
proof -
  have "before_first_colon ''master:dir:schema.graphql'' = ''master''"
    "before_first_colon (after_first_colon ''master:dir:schema.graphql'') = ''dir''"
    by code_simp+
  with C6_pointer_parts [of "''master:dir:schema.graphql''"] show ?thesis
    by simp
qed

text \<open>
  A pointer with two colons: the path the code resolves stops at the second
  colon, the remainder after the first colon does not; the two loads of the run
  ask for the shorter path.
\<close>

theorem C6_path_is_not_the_remainder:
  "snd (pointer_parts ''master:dir:schema.graphql'') = Some ''dir''
   \<and> after_first_colon ''master:dir:schema.graphql'' = ''dir:schema.graphql''
   \<and> snd (pointer_parts ''master:dir:schema.graphql'') \<noteq>
       Some (after_first_colon ''master:dir:schema.graphql'')
   \<and> map load_path (loads (fst (run (example_env\<lparr>schemaPointer := ''master:dir:schema.graphql''\<rparr>)))) =
       [Some ''dir'', Some ''dir'']"
  by code_simp

text \<open>
  Claim C7. In a run in which both files are loaded and the path is present,
  the diff engine is called once, and what it gets depends on the extension of
  the lower-cased path. If that is \<open>.json\<close> and both blobs parse and build, the
  schemas are the ones built from the parsed blobs and the body of each source
  is the printed schema. Otherwise, if \<open>produceSchema\<close> accepts both sources, the
  body of each source is the blob itself and the schemas are produced from
  these sources. In both cases the old source is named by the resolved ref, a
  colon and the path, and the new source by the path alone.
\<close>

theorem C7_schema_sources:
  assumes "snd (configure e) = Inr rs" and "snd (usage e) = Inr cfg"
    and "snd (load e) = Inr (tg, oldFile, newFile)" and "schemaPath tg = Some path"
  shows "(extname e (toLowerCase path) = ''.json''
            \<and> JSON_parse e oldFile = Some oldJson \<and> buildClientSchema e oldJson = Some oldSchema
            \<and> JSON_parse e newFile = Some newJson \<and> buildClientSchema e newJson = Some newSchema \<longrightarrow>
            diffs (fst (run e)) =
              [\<lparr>diff_path = path,
                diff_schemas = \<lparr>schemas_old = oldSchema, schemas_new = newSchema\<rparr>,
                diff_sources =
                  \<lparr>sources_old = \<lparr>source_body = printSchema e oldSchema,
                                   source_name = tpl (schemaRef tg) @ '':'' @ path\<rparr>,
                   sources_new = \<lparr>source_body = printSchema e newSchema, source_name = path\<rparr>\<rparr>,
                diff_rules = rs, diff_config = cfg\<rparr>])
       \<and> (extname e (toLowerCase path) \<noteq> ''.json''
            \<and> produceSchema e \<lparr>source_body = oldFile,
                  source_name = tpl (schemaRef tg) @ '':'' @ path\<rparr> = Some oldSchema
            \<and> produceSchema e \<lparr>source_body = newFile, source_name = path\<rparr> = Some newSchema \<longrightarrow>
            diffs (fst (run e)) =
              [\<lparr>diff_path = path,
                diff_schemas = \<lparr>schemas_old = oldSchema, schemas_new = newSchema\<rparr>,
                diff_sources =
                  \<lparr>sources_old = \<lparr>source_body = oldFile,
                                   source_name = tpl (schemaRef tg) @ '':'' @ path\<rparr>,
                   sources_new = \<lparr>source_body = newFile, source_name = path\<rparr>\<rparr>,
                diff_rules = rs, diff_config = cfg\<rparr>])"
proof (intro conjI impI)
  assume "extname e (toLowerCase path) = ''.json''
            \<and> JSON_parse e oldFile = Some oldJson \<and> buildClientSchema e oldJson = Some oldSchema
            \<and> JSON_parse e newFile = Some newJson \<and> buildClientSchema e newJson = Some newSchema"
  with assms(4) have "snd (build e (tg, oldFile, newFile)) =
     Inr (path,
          \<lparr>schemas_old = oldSchema, schemas_new = newSchema\<rparr>,
          \<lparr>sources_old = \<lparr>source_body = printSchema e oldSchema,
                           source_name = tpl (schemaRef tg) @ '':'' @ path\<rparr>,
           sources_new = \<lparr>source_body = printSchema e newSchema, source_name = path\<rparr>\<rparr>)"
    by (simp add: build_json)
  then show "diffs (fst (run e)) =
              [\<lparr>diff_path = path,
                diff_schemas = \<lparr>schemas_old = oldSchema, schemas_new = newSchema\<rparr>,
                diff_sources =
                  \<lparr>sources_old = \<lparr>source_body = printSchema e oldSchema,
                                   source_name = tpl (schemaRef tg) @ '':'' @ path\<rparr>,
                   sources_new = \<lparr>source_body = printSchema e newSchema, source_name = path\<rparr>\<rparr>,
                diff_rules = rs, diff_config = cfg\<rparr>]"
    by (simp add: diffs_run [OF assms(1,2)] built_after_load [OF assms(3)] diff_input_def)
next
  assume "extname e (toLowerCase path) \<noteq> ''.json''
            \<and> produceSchema e \<lparr>source_body = oldFile,
                  source_name = tpl (schemaRef tg) @ '':'' @ path\<rparr> = Some oldSchema
            \<and> produceSchema e \<lparr>source_body = newFile, source_name = path\<rparr> = Some newSchema"
  with assms(4) have "snd (build e (tg, oldFile, newFile)) =
     Inr (path,
          \<lparr>schemas_old = oldSchema, schemas_new = newSchema\<rparr>,
          \<lparr>sources_old = \<lparr>source_body = oldFile,
                           source_name = tpl (schemaRef tg) @ '':'' @ path\<rparr>,
           sources_new = \<lparr>source_body = newFile, source_name = path\<rparr>\<rparr>)"
    by (simp add: build_text)
  then show "diffs (fst (run e)) =
              [\<lparr>diff_path = path,
                diff_schemas = \<lparr>schemas_old = oldSchema, schemas_new = newSchema\<rparr>,
                diff_sources =
                  \<lparr>sources_old = \<lparr>source_body = oldFile,
                                   source_name = tpl (schemaRef tg) @ '':'' @ path\<rparr>,
                   sources_new = \<lparr>source_body = newFile, source_name = path\<rparr>\<rparr>,
                diff_rules = rs, diff_config = cfg\<rparr>]"
    by (simp add: diffs_run [OF assms(1,2)] built_after_load [OF assms(3)] diff_input_def)
qed

theorem C7_schema_sources_witness:
  "map diff_sources (diffs (fst (run example_env))) =
     [\<lparr>sources_old = \<lparr>source_body = ''type Query { oldQuery: Int newQuery: Int! }'',
                      source_name = ''master:schema.graphql''\<rparr>,
       sources_new = \<lparr>source_body = ''type Query { newQuery: Int! }'',
                      source_name = ''schema.graphql''\<rparr>\<rparr>]
   \<and> map diff_sources (diffs (fst (run (example_env\<lparr>schemaPointer := ''master:Schema.JSON''\<rparr>)))) =
     [\<lparr>sources_old =
         \<lparr>source_body = ''print of schema of json of type Query { oldQuery: Int newQuery: Int! }'',
          source_name = ''master:Schema.JSON''\<rparr>,
       sources_new =
         \<lparr>source_body = ''print of schema of json of type Query { newQuery: Int! }'',
          source_name = ''Schema.JSON''\<rparr>\<rparr>]"
proof -
  let ?json = "example_env\<lparr>schemaPointer := ''master:Schema.JSON''\<rparr>"
  let ?old = "''type Query { oldQuery: Int newQuery: Int! }''"
  let ?new = "''type Query { newQuery: Int! }''"
  have t: "extname example_env (toLowerCase ''schema.graphql'') \<noteq> ''.json''
      \<and> produceSchema example_env \<lparr>source_body = ?old,
            source_name = tpl (Some ''master'') @ '':'' @ ''schema.graphql''\<rparr> = Some (''schema of '' @ ?old)
      \<and> produceSchema example_env \<lparr>source_body = ?new, source_name = ''schema.graphql''\<rparr> =
            Some (''schema of '' @ ?new)"
    by code_simp
  have j: "extname ?json (toLowerCase ''Schema.JSON'') = ''.json''
      \<and> JSON_parse ?json ?old = Some (''json of '' @ ?old)
      \<and> buildClientSchema ?json (''json of '' @ ?old) = Some (''schema of json of '' @ ?old)
      \<and> JSON_parse ?json ?new = Some (''json of '' @ ?new)
      \<and> buildClientSchema ?json (''json of '' @ ?new) = Some (''schema of json of '' @ ?new)"
    by code_simp
  have pj: "printSchema example_env = (\<lambda>schema. ''print of '' @ schema)"
    by (simp add: example_env_def)
  from C7_schema_sources [OF example_configure example_usage example_load, of "''schema.graphql''"
      "''json of '' @ ?old" "''schema of '' @ ?old" "''json of '' @ ?new" "''schema of '' @ ?new"] t
  have 1: "map diff_sources (diffs (fst (run example_env))) =
     [\<lparr>sources_old = \<lparr>source_body = ?old, source_name = ''master:schema.graphql''\<rparr>,
       sources_new = \<lparr>source_body = ?new, source_name = ''schema.graphql''\<rparr>\<rparr>]"
    by simp
  from C7_schema_sources [OF example_json_stages, of "''Schema.JSON''"
      "''json of '' @ ?old" "''schema of json of '' @ ?old"
      "''json of '' @ ?new" "''schema of json of '' @ ?new"] j
  have 2: "map diff_sources (diffs (fst (run ?json))) =
     [\<lparr>sources_old = \<lparr>source_body = ''print of schema of json of '' @ ?old,
                      source_name = ''master:Schema.JSON''\<rparr>,
       sources_new = \<lparr>source_body = ''print of schema of json of '' @ ?new,
                      source_name = ''Schema.JSON''\<rparr>\<rparr>]"
    by (simp add: pj)
  from 1 2 show ?thesis by simp
qed

text \<open>
  Claim C8. For a run that reaches the result of the diff engine, the only
  output set is \<open>changes\<close>, and its value is the decimal numeral of the number
  of changes; an absent change list counts as the empty list, and the output is
  then \<open>0\<close>.
\<close>

theorem C8_changes_output:
  assumes "snd (diffed e) = Inr a"
  shows "outputs (fst (run e)) = [(''changes'', String (length (changes a)))]
       \<and> decimal (String (length (changes a))) = length (changes a)
       \<and> (\<forall>cs. action_changes a = Some cs \<longrightarrow> changes a = cs)
       \<and> (action_changes a = None \<longrightarrow> changes a = [] \<and> outputs (fst (run e)) = [(''changes'', ''0'')])"
proof -
  have "String 0 = ''0''"
    by code_simp
  with assms show ?thesis
    by (simp add: run_reaches outputs_append outputs_diffed outputs_conclude decimal_String
        changes_def)
qed

theorem C8_changes_output_witness:
  "outputs (fst (run example_env)) = [(''changes'', ''2'')]"
proof -
  have "String (length (changes \<lparr>action_conclusion = Success,
          action_changes = Some [''Field oldQuery was removed'', ''Type OldType was removed'']\<rparr>)) = ''2''"
    by code_simp
  with C8_changes_output [OF example_diffed] show ?thesis
    by simp
qed

text \<open>
  Claim C9. For a run that reaches a final conclusion: on \<open>Failure\<close> the last two
  effects are the summary as an error message and the mark of failure with the
  fixed message \<open>Something is wrong with your schema\<close>, the only failure
  signalled; on \<open>Success\<close> the last effect is the summary as an informational
  message, and no failure is signalled.
\<close>

theorem C9_report:
  assumes "snd (diffed e) = Inr a"
  shows "(final_conclusion e (action_conclusion a) = Failure \<longrightarrow>
            (\<exists>pre. run e =
               (pre @ [Error (summary e a), SetFailed ''Something is wrong with your schema''],
                Returned))
            \<and> failures (fst (run e)) = [''Something is wrong with your schema''])
       \<and> (final_conclusion e (action_conclusion a) = Success \<longrightarrow>
            (\<exists>pre. run e = (pre @ [Info (summary e a)], Returned))
            \<and> failures (fst (run e)) = [])"
proof -
  have f: "failures (fst (run e)) = failures (fst (conclude e a))"
    using assms by (simp add: run_reaches failures_append failures_diffed)
  have r: "run e = (fst (diffed e) @ fst (conclude e a), Returned)"
    using assms by (rule run_reaches)
  show ?thesis
  proof (cases "final_conclusion e (action_conclusion a)")
    case Success
    let ?pre = "fst (diffed e) @ [SetOutput ''changes'' (String (length (changes a))),
      Info (''Changes: '' @ String (length (changes a)))] @
     (if forced e (action_conclusion a) then [Info ''FailOnBreaking disabled. Forcing SUCCESS''] else []) @
     [Info (''Conclusion: '' @ conclusion_text (final_conclusion e (action_conclusion a)))]"
    have "run e = (?pre @ [Info (summary e a)], Returned)"
      using Success by (simp add: r fst_conclude)
    then have "\<exists>pre. run e = (pre @ [Info (summary e a)], Returned)" by blast
    with Success f show ?thesis by (simp add: failures_conclude)
  next
    case Failure
    let ?pre = "fst (diffed e) @ [SetOutput ''changes'' (String (length (changes a))),
      Info (''Changes: '' @ String (length (changes a)))] @
     (if forced e (action_conclusion a) then [Info ''FailOnBreaking disabled. Forcing SUCCESS''] else []) @
     [Info (''Conclusion: '' @ conclusion_text (final_conclusion e (action_conclusion a)))]"
    have "run e = (?pre @ [Error (summary e a), SetFailed ''Something is wrong with your schema''], Returned)"
      using Failure by (simp add: r fst_conclude)
    then have "\<exists>pre. run e = (pre @ [Error (summary e a), SetFailed ''Something is wrong with your schema''], Returned)" by blast
    with Failure f show ?thesis by (simp add: failures_conclude)
  qed
qed

theorem C9_report_witness:
  "failures (fst (run (example_env\<lparr>input_rules := None, failOnBreaking := True\<rparr>))) =
     [''Something is wrong with your schema'']
   \<and> failures (fst (run example_env)) = []"
proof -
  have "final_conclusion (example_env\<lparr>input_rules := None, failOnBreaking := True\<rparr>) Failure = Failure"
    by code_simp
  moreover have "final_conclusion example_env Success = Success"
    by code_simp
  ultimately show ?thesis
    using C9_report [OF example_strict] C9_report [OF example_diffed] by simp
qed

text \<open>
  Claim C10. The \<open>changes\<close> output does not depend on the conclusion policy.
  Everything up to the result of the diff engine is the same whatever the
  \<open>fail-on-breaking\<close> flag, the approval label and the labels of the pull request
  are; the outputs of the whole run are the same; and the output is the first
  effect after the result of the diff engine, before anything the policy does.
\<close>

theorem C10_changes_output_ignores_policy:
  "diffed (with_policy e b l ls) = diffed e
   \<and> outputs (fst (run (with_policy e b l ls))) = outputs (fst (run e))
   \<and> (\<forall>a. snd (diffed e) = Inr a \<longrightarrow>
         (\<exists>rest. fst (run (with_policy e b l ls)) =
            fst (diffed e) @ SetOutput ''changes'' (String (length (changes a))) # rest))"
proof -
  have "\<exists>rest. fst (run (with_policy e b l ls)) =
          fst (diffed e) @ SetOutput ''changes'' (String (length (changes a))) # rest"
    if "snd (diffed e) = Inr a" for a
  proof -
    from that have "snd (diffed (with_policy e b l ls)) = Inr a"
      by (simp add: diffed_with_policy)
    then have "fst (run (with_policy e b l ls)) =
        fst (diffed e) @ fst (conclude (with_policy e b l ls) a)"
      by (simp add: run_reaches diffed_with_policy)
    then show ?thesis
      by (simp add: fst_conclude)
  qed
  then show ?thesis
    by (simp add: diffed_with_policy outputs_run)
qed

theorem C10_changes_output_ignores_policy_witness:
  "outputs (fst (run (with_policy (example_env\<lparr>input_rules := None\<rparr>) True [] None))) =
     [(''changes'', ''2'')]
   \<and> outputs (fst (run (example_env\<lparr>input_rules := None\<rparr>))) = [(''changes'', ''2'')]
   \<and> failures (fst (run (with_policy (example_env\<lparr>input_rules := None\<rparr>) True [] None))) =
     [''Something is wrong with your schema'']
   \<and> failures (fst (run (example_env\<lparr>input_rules := None\<rparr>))) = []"
proof -
  have "outputs (fst (run (example_env\<lparr>input_rules := None\<rparr>))) = [(''changes'', ''2'')]"
    by code_simp
  moreover have "failures (fst (run (with_policy (example_env\<lparr>input_rules := None\<rparr>) True [] None))) =
     [''Something is wrong with your schema'']"
    by code_simp
  moreover have "failures (fst (run (example_env\<lparr>input_rules := None\<rparr>))) = []"
    by code_simp
  ultimately show ?thesis
    using C10_changes_output_ignores_policy [of "example_env\<lparr>input_rules := None\<rparr>" True "[]" None]
    by simp
qed

end
